theory Spec2Isabelle
  imports Complex_Main "HOL-Library.AList"
begin

section \<open>Values of the Python program\<close>

text \<open>
  The exceptions that \<^verbatim>\<open>smart_explainer.py\<close> raises itself carry their message;
  the other constructors are the error kinds of the collaborators (section 7 of the
  specification) and the Python runtime errors of attribute access, indexing,
  dictionary lookup and \<^verbatim>\<open>len(None)\<close>.
\<close>

datatype error =
    ValueError string
  | AssertionError string
  | ConfigurationError
  | ShapeMismatchError
  | TypeError
  | IndexError
  | AttributeError
  | KeyError
  | ExternalError nat

text \<open>A \<^verbatim>\<open>pandas.DataFrame\<close>: row labels, column labels and the rows of cells.\<close>

record 'a frame =
  df_index :: "int list"
  df_columns :: "string list"
  df_values :: "'a list list"

text \<open>
  Regression holds one DataFrame where classification holds a Python list of them,
  one per class (\<^verbatim>\<open>isinstance(x, pd.DataFrame)\<close> against \<^verbatim>\<open>isinstance(x, list)\<close>).
\<close>

datatype 'a obj = Single 'a | Multi "'a list"

datatype cell = Num real | Str string

text \<open>A feature named by the caller: a column number or a name.\<close>

datatype feat = FId int | FName string

text \<open>A handle on an object of a collaborator (model, encoder, SHAP explainer).\<close>

datatype opaque = Opaque nat

text \<open>
  An entry of a numpy array of floats where the program compares entries and
  nothing else (\<^verbatim>\<open>np.clip\<close>): a finite number, an infinity, or NaN, which no
  comparison orders. \<^verbatim>\<open>np.maximum\<close> and \<^verbatim>\<open>np.minimum\<close> return NaN as soon as an
  operand is NaN, and otherwise one of their operands, so no rounding occurs.
\<close>

datatype float64 = Finite real | PosInf | NegInf | NaN

fun fless :: "float64 \<Rightarrow> float64 \<Rightarrow> bool" where
  "fless (Finite a) (Finite b) = (a < b)"
| "fless (Finite a) PosInf = True"
| "fless NegInf (Finite b) = True"
| "fless NegInf PosInf = True"
| "fless _ _ = False"

definition maximum :: "float64 \<Rightarrow> float64 \<Rightarrow> float64" where
  "maximum x y = (if x = NaN \<or> y = NaN then NaN else if fless x y then y else x)"

definition minimum :: "float64 \<Rightarrow> float64 \<Rightarrow> float64" where
  "minimum x y = (if x = NaN \<or> y = NaN then NaN else if fless y x then y else x)"

definition applymap :: "('a \<Rightarrow> 'b) \<Rightarrow> 'a frame \<Rightarrow> 'b frame" where
  "applymap f df =
     \<lparr>df_index = df_index df, df_columns = df_columns df,
      df_values = map (map f) (df_values df)\<rparr>"

definition shape :: "'a frame \<Rightarrow> nat \<times> nat list" where
  "shape df = (length (df_columns df), map length (df_values df))"

fun frames_of :: "'a obj \<Rightarrow> 'a list" where
  "frames_of (Single f) = [f]"
| "frames_of (Multi fs) = fs"

fun sequence :: "(error + 'a) list \<Rightarrow> error + 'a list" where
  "sequence [] = Inr []"
| "sequence (Inl e # _) = Inl e"
| "sequence (Inr x # rs) = (case sequence rs of Inl e \<Rightarrow> Inl e | Inr xs \<Rightarrow> Inr (x # xs))"

text \<open>\<^verbatim>\<open>xs.index(y)\<close>, with \<open>None\<close> where Python raises.\<close>

fun index_of :: "'a list \<Rightarrow> 'a \<Rightarrow> nat option" where
  "index_of [] y = None"
| "index_of (x # xs) y = (if x = y then Some 0 else map_option Suc (index_of xs y))"

section \<open>Mask algebra of one table\<close>

text \<open>
  Modelled from the spec: \<^verbatim>\<open>init_mask\<close> of the state object (the module of
  \<^verbatim>\<open>SmartState\<close> is not among the sources). Section 4.3: ``all-true mask, same
  shape as contrib\_sorted''; the value is the argument that \<^verbatim>\<open>filter\<close> passes.
\<close>

definition init_mask :: "real frame \<Rightarrow> bool \<Rightarrow> bool frame" where
  "init_mask s_contrib v = applymap (\<lambda>_. v) s_contrib"

text \<open>
  Modelled from the spec: \<^verbatim>\<open>hide_contributions\<close> of the state object. Section 4.3:
  ``false at every ranked position whose var\_dict entry matches one of those
  identifiers, for every row''.
\<close>

definition hide_contributions :: "int frame \<Rightarrow> int list \<Rightarrow> bool frame" where
  "hide_contributions var_dict features_list =
     applymap (\<lambda>v. v \<notin> set features_list) var_dict"

text \<open>
  Modelled from the spec: \<^verbatim>\<open>cap_contributions\<close> of the state object. Section 4.3:
  ``false wherever abs(contrib\_sorted) < threshold'' and ``threshold < 0 [is]
  rejected as invalid configuration''.
\<close>

definition cap_contributions :: "real frame \<Rightarrow> real \<Rightarrow> error + bool frame" where
  "cap_contributions s_contrib threshold =
     (if threshold < 0 then Inl ConfigurationError
      else Inr (applymap (\<lambda>c. \<not> \<bar>c\<bar> < threshold) s_contrib))"

text \<open>
  Modelled from the spec: \<^verbatim>\<open>sign_contributions\<close> of the state object. Section 4.3:
  ``if positive requested, false wherever contribution \<le> 0; if negative requested,
  false wherever contribution \<ge> 0''.
\<close>

definition sign_contributions :: "real frame \<Rightarrow> bool \<Rightarrow> bool frame" where
  "sign_contributions s_contrib positive =
     applymap (\<lambda>c. if positive then \<not> c \<le> 0 else \<not> c \<ge> 0) s_contrib"

text \<open>
  Modelled from the spec: \<^verbatim>\<open>combine_masks\<close> of the state object. Section 3:
  ``combining masks is shape-preserving AND''; masks of different shapes are a
  shape mismatch (section 7), and there is no mask to return for an empty list.
\<close>

definition and_frame :: "bool frame \<Rightarrow> bool frame \<Rightarrow> bool frame" where
  "and_frame a b =
     \<lparr>df_index = df_index a, df_columns = df_columns a,
      df_values = map2 (map2 (\<and>)) (df_values a) (df_values b)\<rparr>"

fun combine_masks :: "bool frame list \<Rightarrow> error + bool frame" where
  "combine_masks [] = Inl ShapeMismatchError"
| "combine_masks [m] = Inr m"
| "combine_masks (m # m' # ms) =
     (if shape m' = shape m then combine_masks (and_frame m m' # ms)
      else Inl ShapeMismatchError)"

text \<open>
  Modelled from the spec: \<^verbatim>\<open>cutoff_contributions\<close> of the state object. Section 4.3:
  ``within each row, keep only the first N true entries in rank order, setting all
  true entries beyond position N to false'' and ``max\_contrib \<le> 0 [is] rejected as
  invalid configuration''.
\<close>

fun cutoff_row :: "nat \<Rightarrow> bool list \<Rightarrow> bool list" where
  "cutoff_row n [] = []"
| "cutoff_row n (b # bs) =
     (if b then (if 0 < n then True # cutoff_row (n - 1) bs else False # cutoff_row n bs)
      else False # cutoff_row n bs)"

definition cutoff_frame :: "nat \<Rightarrow> bool frame \<Rightarrow> bool frame" where
  "cutoff_frame n m =
     \<lparr>df_index = df_index m, df_columns = df_columns m,
      df_values = map (cutoff_row n) (df_values m)\<rparr>"

definition cutoff_contributions :: "bool frame \<Rightarrow> int \<Rightarrow> error + bool frame" where
  "cutoff_contributions m max_contrib =
     (if max_contrib \<le> 0 then Inl ConfigurationError
      else Inr (cutoff_frame (nat max_contrib) m))"

text \<open>
  Modelled from the spec: \<^verbatim>\<open>compute_masked_contributions\<close> of the state object.
  Section 4.3: ``contrib\_sorted where mask is true, else a defined empty/absent
  sentinel (not zero)''; the sentinel is \<open>None\<close>.
\<close>

definition compute_masked_contributions :: "real frame \<Rightarrow> bool frame \<Rightarrow> real option frame" where
  "compute_masked_contributions s_contrib m =
     \<lparr>df_index = df_index s_contrib, df_columns = df_columns s_contrib,
      df_values = map2 (map2 (\<lambda>c b. if b then Some c else None))
                    (df_values s_contrib) (df_values m)\<rparr>"

section \<open>The state object: one table or one table per class\<close>

text \<open>
  Modelled from the spec: the state object \<^verbatim>\<open>self.state\<close> (\<^verbatim>\<open>SmartState\<close>, or
  \<^verbatim>\<open>MultiDecorator(SmartState())\<close> when the contributions are a list; neither class
  is among the sources). Sections 4.1 and 9: every operation is implemented once
  for the single table and mapped over the sequence of tables, keeping its order
  and length; an argument of the other representation is a type error.
\<close>

definition st_init_mask :: "real frame obj \<Rightarrow> bool \<Rightarrow> bool frame obj" where
  "st_init_mask s_contrib v = map_obj (\<lambda>f. init_mask f v) s_contrib"

definition st_hide_contributions :: "int frame obj \<Rightarrow> int list \<Rightarrow> bool frame obj" where
  "st_hide_contributions var_dict features_list =
     map_obj (\<lambda>f. hide_contributions f features_list) var_dict"

fun st_cap_contributions :: "real frame obj \<Rightarrow> real \<Rightarrow> error + bool frame obj" where
  "st_cap_contributions (Single f) threshold =
     (case cap_contributions f threshold of Inl e \<Rightarrow> Inl e | Inr m \<Rightarrow> Inr (Single m))"
| "st_cap_contributions (Multi fs) threshold =
     (case sequence (map (\<lambda>f. cap_contributions f threshold) fs) of
        Inl e \<Rightarrow> Inl e | Inr ms \<Rightarrow> Inr (Multi ms))"

definition st_sign_contributions :: "real frame obj \<Rightarrow> bool \<Rightarrow> bool frame obj" where
  "st_sign_contributions s_contrib positive =
     map_obj (\<lambda>f. sign_contributions f positive) s_contrib"

fun singles :: "'a obj list \<Rightarrow> 'a list option" where
  "singles [] = Some []"
| "singles (Single f # os) = (case singles os of None \<Rightarrow> None | Some fs \<Rightarrow> Some (f # fs))"
| "singles (Multi _ # os) = None"

fun multis :: "'a obj list \<Rightarrow> 'a list list option" where
  "multis [] = Some []"
| "multis (Multi fs # os) = (case multis os of None \<Rightarrow> None | Some fss \<Rightarrow> Some (fs # fss))"
| "multis (Single _ # os) = None"

definition st_combine_masks :: "bool frame obj list \<Rightarrow> error + bool frame obj" where
  "st_combine_masks masks =
     (case singles masks of
        Some fs \<Rightarrow> (case combine_masks fs of Inl e \<Rightarrow> Inl e | Inr m \<Rightarrow> Inr (Single m))
      | None \<Rightarrow>
        (case multis masks of
           None \<Rightarrow> Inl TypeError
         | Some [] \<Rightarrow> Inl ShapeMismatchError
         | Some (fs0 # fss) \<Rightarrow>
             if list_all (\<lambda>fs. length fs = length fs0) fss
             then (case sequence (map (\<lambda>k. combine_masks (map (\<lambda>fs. fs ! k) (fs0 # fss)))
                                    [0 ..< length fs0]) of
                     Inl e \<Rightarrow> Inl e | Inr ms \<Rightarrow> Inr (Multi ms))
             else Inl ShapeMismatchError))"

fun st_cutoff_contributions :: "bool frame obj \<Rightarrow> int \<Rightarrow> error + bool frame obj" where
  "st_cutoff_contributions (Single m) max_contrib =
     (case cutoff_contributions m max_contrib of Inl e \<Rightarrow> Inl e | Inr m' \<Rightarrow> Inr (Single m'))"
| "st_cutoff_contributions (Multi ms) max_contrib =
     (case sequence (map (\<lambda>m. cutoff_contributions m max_contrib) ms) of
        Inl e \<Rightarrow> Inl e | Inr ms' \<Rightarrow> Inr (Multi ms'))"

fun st_compute_masked_contributions ::
  "real frame obj \<Rightarrow> bool frame obj \<Rightarrow> error + real option frame obj" where
  "st_compute_masked_contributions (Single c) (Single m) =
     Inr (Single (compute_masked_contributions c m))"
| "st_compute_masked_contributions (Multi cs) (Multi ms) =
     (if length cs = length ms
      then Inr (Multi (map2 compute_masked_contributions cs ms))
      else Inl ShapeMismatchError)"
| "st_compute_masked_contributions _ _ = Inl TypeError"

section \<open>The explainer object\<close>

text \<open>
  \<^verbatim>\<open>self.data\<close> and \<^verbatim>\<open>self.data_groups\<close>: the three ranked tables, and the summary
  that \<^verbatim>\<open>to_pandas\<close> stores under the key \<^verbatim>\<open>summary\<close>.
\<close>

type_synonym summary_frame = "(feat \<times> cell \<times> real) option frame"

record data =
  contrib_sorted :: "real frame obj"
  var_dict :: "int frame obj"
  x_sorted :: "cell frame obj"
  summary :: "summary_frame obj option"

record mask_params =
  mp_features_to_hide :: "feat list option"
  mp_threshold :: "real option"
  mp_positive :: "bool option"
  mp_max_contrib :: "int option"

record stability =
  variability :: "real list list"
  amplitude :: "real list list"

record compacity =
  features_needed :: "int list"
  distance_reached :: "float64 list"

record postprocess =
  pp_type :: string
  pp_rule :: string

datatype state = SmartState | MultiDecorator state

text \<open>
  The attributes of a \<^verbatim>\<open>SmartExplainer\<close>. An attribute that \<^verbatim>\<open>compile\<close> always
  assigns is a plain field; an attribute that exists only after a later call
  (\<^verbatim>\<open>filter\<close>, \<^verbatim>\<open>predict_proba\<close>, compilation with groups, post-processing of
  numbers into strings) is an option whose \<open>None\<close> is the missing attribute, read
  with \<^verbatim>\<open>AttributeError\<close>. The attributes whose Python value may be \<^verbatim>\<open>None\<close>
  (\<^verbatim>\<open>label_dict\<close>, \<^verbatim>\<open>features_groups\<close>, \<^verbatim>\<open>_classes\<close>, \<^verbatim>\<open>y_pred\<close>,
  \<^verbatim>\<open>explainer\<close>, \<^verbatim>\<open>preprocessing\<close>, \<^verbatim>\<open>postprocessing\<close>, \<^verbatim>\<open>features_imp\<close>, the three
  diagnostics) are options too. Dictionaries are association lists in insertion
  order.
\<close>

record smart_explainer =
  features_dict :: "(string \<times> string) list"
  inv_features_dict :: "(string \<times> string) list"
  label_dict :: "(int \<times> string) list option"
  inv_label_dict :: "(string \<times> int) list"
  title_story :: string
  features_groups :: "(string \<times> string list) list option"
  x_init :: "cell frame"
  x_pred :: "cell frame"
  x_contrib_plot :: "cell frame option"
  preprocessing :: "opaque list option"
  model :: opaque
  u_case :: string
  u_classes :: "int list option"
  state :: state
  contributions :: "real frame obj"
  explainer :: "opaque option"
  y_pred :: "real frame option"
  columns_dict :: "(nat \<times> string) list"
  inv_columns_dict :: "(string \<times> nat) list"
  postprocessing_modifications :: bool
  postprocessing :: "(string \<times> postprocess) list option"
  data :: data
  features_imp :: "real list obj option"
  features_desc :: "(string \<times> nat) list"
  contributions_groups :: "real frame obj option"
  features_imp_groups :: "real list obj option option"
  x_pred_groups :: "cell frame option"
  data_groups :: "data option"
  columns_dict_groups :: "(nat \<times> string) list option"
  local_neighbors :: "real list list option"
  features_stability :: "stability option"
  features_compacity :: "compacity option"
  mask :: "bool frame obj option"
  masked_contributions :: "real option frame obj option"
  mask_params :: "mask_params option"
  proba_values :: "real frame option"

text \<open>
  The functions that \<^verbatim>\<open>smart_explainer.py\<close> imports from modules that are not among
  the sources and that the specification leaves to collaborators (section 6) are
  parameters of the model. Each may raise: \<open>Inl n\<close> is an exception of the
  collaborator, which reaches the caller as \<open>ExternalError n\<close>.
\<close>

record ext =
  ext_check_features_name ::
    "(nat \<times> string) list \<Rightarrow> (string \<times> string) list \<Rightarrow> feat list \<Rightarrow> nat + int list"
  ext_find_neighbors ::
    "int list \<Rightarrow> cell frame \<Rightarrow> opaque \<Rightarrow> string \<Rightarrow> nat + real list list list"
  ext_shap_neighbors ::
    "real list list \<Rightarrow> cell frame \<Rightarrow> real frame obj \<Rightarrow>
       nat + (real list list \<times> real list \<times> real list)"
  ext_get_min_nb_features ::
    "int list \<Rightarrow> real frame obj \<Rightarrow> string \<Rightarrow> real \<Rightarrow> nat + int list"
  ext_get_distance ::
    "int list \<Rightarrow> real frame obj \<Rightarrow> string \<Rightarrow> int \<Rightarrow> nat + float64 list"
  ext_predict_proba ::
    "opaque \<Rightarrow> cell frame \<Rightarrow> int list option \<Rightarrow> nat + real frame"
  ext_inverse_transform :: "cell frame \<Rightarrow> opaque list option \<Rightarrow> nat + cell frame"
  ext_check_model :: "opaque \<Rightarrow> nat + (string \<times> int list option)"
  ext_check_label_dict ::
    "(int \<times> string) list option \<Rightarrow> string \<Rightarrow> int list option \<Rightarrow> nat + unit"
  ext_check_explainer :: "opaque option \<Rightarrow> nat + opaque option"
  ext_shap_contributions ::
    "opaque \<Rightarrow> cell frame \<Rightarrow> opaque option \<Rightarrow> nat + (real frame obj \<times> opaque option)"
  ext_adapt_contributions :: "string \<Rightarrow> real frame obj \<Rightarrow> nat + real frame obj"
  ext_check_contribution_object ::
    "string \<Rightarrow> int list option \<Rightarrow> real frame obj \<Rightarrow> nat + unit"
  ext_validate_contributions :: "real frame obj \<Rightarrow> cell frame \<Rightarrow> nat + real frame obj"
  ext_inverse_transform_contributions ::
    "real frame obj \<Rightarrow> opaque list \<Rightarrow> nat + real frame obj"
  ext_check_contributions :: "real frame obj \<Rightarrow> cell frame \<Rightarrow> nat + bool"
  ext_check_ypred :: "cell frame \<Rightarrow> real frame option \<Rightarrow> nat + real frame option"
  ext_check_postprocessing ::
    "cell frame \<Rightarrow> (string \<times> postprocess) list option \<Rightarrow> nat + unit"
  ext_apply_postprocessing ::
    "cell frame \<Rightarrow> (string \<times> postprocess) list \<Rightarrow> nat + cell frame"
  ext_rank_contributions ::
    "real frame obj \<Rightarrow> cell frame \<Rightarrow>
       nat + (real frame obj \<times> int frame obj \<times> cell frame obj)"
  ext_compute_grouped_contributions ::
    "real frame obj \<Rightarrow> (string \<times> string list) list \<Rightarrow> nat + real frame obj"
  ext_create_grouped_features_values ::
    "cell frame \<Rightarrow> cell frame \<Rightarrow> opaque list option \<Rightarrow> (string \<times> string list) list option \<Rightarrow>
       (string \<times> string) list \<Rightarrow> nat + cell frame"

definition call :: "nat + 'a \<Rightarrow> error + 'a" where
  "call r = (case r of Inl n \<Rightarrow> Inl (ExternalError n) | Inr v \<Rightarrow> Inr v)"

section \<open>\<^verbatim>\<open>SmartExplainer.filter\<close>\<close>

text \<open>
  \<^verbatim>\<open>check_features_name\<close> (line 644): the group columns when \<^verbatim>\<open>use_groups\<close> is not
  \<^verbatim>\<open>False\<close>; the conversion itself is \<^verbatim>\<open>shapash.utils.check.check_features_name\<close>.
\<close>

definition check_features_name ::
  "ext \<Rightarrow> smart_explainer \<Rightarrow> feat list \<Rightarrow> bool \<Rightarrow> error + int list" where
  "check_features_name ext self features use_groups =
     (case (if use_groups then columns_dict_groups self else Some (columns_dict self)) of
        None \<Rightarrow> Inl AttributeError
      | Some cd \<Rightarrow> call (ext_check_features_name ext cd (features_dict self) features))"

text \<open>
  \<^verbatim>\<open>filter\<close> (line 697), in three parts. The Python tests \<^verbatim>\<open>if features_to_hide:\<close>,
  \<^verbatim>\<open>if threshold:\<close> and \<^verbatim>\<open>if max_contrib:\<close> are truth tests: an empty list and the
  number zero count as \<^verbatim>\<open>None\<close>; \<^verbatim>\<open>positive\<close> is compared with \<^verbatim>\<open>None\<close>.

  Lines 734 to 755: the list \<^verbatim>\<open>mask\<close> of the masks of the criteria.
\<close>

definition criteria_masks ::
  "ext \<Rightarrow> smart_explainer \<Rightarrow> data \<Rightarrow> feat list option \<Rightarrow> real option \<Rightarrow> bool option \<Rightarrow>
     bool \<Rightarrow> error + bool frame obj list" where
  "criteria_masks ext self dat features_to_hide threshold positive display_groups =
     (let masks = [st_init_mask (contrib_sorted dat) True] in
      case (case features_to_hide of
              None \<Rightarrow> Inr masks
            | Some fth \<Rightarrow>
                if fth = [] then Inr masks
                else (case check_features_name ext self fth display_groups of
                        Inl e \<Rightarrow> Inl e
                      | Inr features_list \<Rightarrow>
                          Inr (masks @ [st_hide_contributions (var_dict dat) features_list]))) of
        Inl e \<Rightarrow> Inl e
      | Inr masks \<Rightarrow>
      case (case threshold of
              None \<Rightarrow> Inr masks
            | Some t \<Rightarrow>
                if t = 0 then Inr masks
                else (case st_cap_contributions (contrib_sorted dat) t of
                        Inl e \<Rightarrow> Inl e
                      | Inr m \<Rightarrow> Inr (masks @ [m]))) of
        Inl e \<Rightarrow> Inl e
      | Inr masks \<Rightarrow>
          Inr (case positive of
                 None \<Rightarrow> masks
               | Some p \<Rightarrow> masks @ [st_sign_contributions (contrib_sorted dat) p]))"

text \<open>
  Lines 757 to 768, from the combined mask \<open>m\<close> that line 756 assigns to
  \<^verbatim>\<open>self.mask\<close>: the cutoff, the masked contributions and the parameters. An
  exception of the cutoff leaves the combined mask in \<^verbatim>\<open>self.mask\<close>.
\<close>

definition finish_filter ::
  "smart_explainer \<Rightarrow> data \<Rightarrow> bool frame obj \<Rightarrow> feat list option \<Rightarrow> real option \<Rightarrow>
     bool option \<Rightarrow> int option \<Rightarrow> error option \<times> smart_explainer" where
  "finish_filter self dat m features_to_hide threshold positive max_contrib =
     (let self = self\<lparr>mask := Some m\<rparr> in
      case (case max_contrib of
              None \<Rightarrow> Inr (m, self)
            | Some k \<Rightarrow>
                if k = 0 then Inr (m, self)
                else (case st_cutoff_contributions m k of
                        Inl e \<Rightarrow> Inl e
                      | Inr m' \<Rightarrow> Inr (m', self\<lparr>mask := Some m'\<rparr>))) of
        Inl e \<Rightarrow> (Some e, self)
      | Inr (m, self) \<Rightarrow>
      case st_compute_masked_contributions (contrib_sorted dat) m of
        Inl e \<Rightarrow> (Some e, self)
      | Inr mc \<Rightarrow>
          (None, self\<lparr>masked_contributions := Some mc,
                        mask_params := Some \<lparr>mp_features_to_hide = features_to_hide,
                                               mp_threshold = threshold,
                                               mp_positive = positive,
                                               mp_max_contrib = max_contrib\<rparr>\<rparr>))"

text \<open>
  The method: the choice of the data (lines 729 to 733), the masks, their
  combination (line 756) and the rest. The result is the exception raised, if
  any, and the object as the call leaves it.
\<close>

definition filter_xpl ::
  "ext \<Rightarrow> smart_explainer \<Rightarrow> feat list option \<Rightarrow> real option \<Rightarrow> bool option \<Rightarrow>
     int option \<Rightarrow> bool option \<Rightarrow> error option \<times> smart_explainer" where
  "filter_xpl ext self features_to_hide threshold positive max_contrib display_groups =
     (let display_groups = (display_groups \<noteq> Some False \<and> features_groups self \<noteq> None) in
      case (if display_groups then data_groups self else Some (data self)) of
        None \<Rightarrow> (Some AttributeError, self)
      | Some dat \<Rightarrow>
     (case criteria_masks ext self dat features_to_hide threshold positive display_groups of
        Inl e \<Rightarrow> (Some e, self)
      | Inr masks \<Rightarrow>
     (case st_combine_masks masks of
        Inl e \<Rightarrow> (Some e, self)
      | Inr m \<Rightarrow>
          finish_filter self dat m features_to_hide threshold positive max_contrib)))"

section \<open>\<^verbatim>\<open>compute_features_stability\<close> and \<^verbatim>\<open>compute_features_compacity\<close>\<close>

text \<open>
  The guard of both methods (lines 988 and 1024):
  \<^verbatim>\<open>(self._case == "classification") and (len(self._classes) > 2)\<close>. The conjunction
  is short-circuit, and \<^verbatim>\<open>len(None)\<close> is a type error.
\<close>

definition multi_class :: "smart_explainer \<Rightarrow> error + bool" where
  "multi_class self =
     (if u_case self = ''classification''
      then (case u_classes self of
              None \<Rightarrow> Inl TypeError
            | Some cs \<Rightarrow> Inr (2 < length cs))
      else Inr False)"

text \<open>\<^verbatim>\<open>xs[i]\<close> for a non-negative \<^verbatim>\<open>i\<close>.\<close>

definition item :: "'a list \<Rightarrow> nat \<Rightarrow> error + 'a" where
  "item xs i = (if i < length xs then Inr (xs ! i) else Inl IndexError)"

text \<open>
  \<^verbatim>\<open>a[i, :] = v\<close> on a two-dimensional numpy array \<^verbatim>\<open>a\<close> with a one-dimensional
  \<^verbatim>\<open>v\<close>: \<^verbatim>\<open>v\<close> has the width of \<^verbatim>\<open>a\<close> or one element, which is broadcast; anything
  else is a \<^verbatim>\<open>ValueError\<close>.
\<close>

definition assign_row :: "real list list \<Rightarrow> nat \<Rightarrow> real list \<Rightarrow> error + real list list" where
  "assign_row a i v =
     (if i < length a
      then (if length v = length (a ! i) then Inr (a[i := v])
            else (case v of
                    [x] \<Rightarrow> Inr (a[i := replicate (length (a ! i)) x])
                  | _ \<Rightarrow> Inl (ValueError ''could not broadcast input array'')))
      else Inl IndexError)"

text \<open>\<^verbatim>\<open>np.zeros((n, f))\<close>.\<close>

definition zeros :: "nat \<Rightarrow> nat \<Rightarrow> real list list" where
  "zeros n f = replicate n (replicate f 0)"

text \<open>The loop \<^verbatim>\<open>for i in range(numb_expl)\<close> of line 1003, on the two local arrays.\<close>

fun stability_loop ::
  "ext \<Rightarrow> smart_explainer \<Rightarrow> real list list list \<Rightarrow> nat list \<Rightarrow>
     real list list \<Rightarrow> real list list \<Rightarrow> error + (real list list \<times> real list list)" where
  "stability_loop ext self all_neighbors [] vari ampl = Inr (vari, ampl)"
| "stability_loop ext self all_neighbors (i # is) vari ampl =
     (case item all_neighbors i of
        Inl e \<Rightarrow> Inl e
      | Inr nb \<Rightarrow>
     (case call (ext_shap_neighbors ext nb (x_init self) (contributions self)) of
        Inl e \<Rightarrow> Inl e
      | Inr (_, v, a) \<Rightarrow>
     (case assign_row vari i v of
        Inl e \<Rightarrow> Inl e
      | Inr vari' \<Rightarrow>
     (case assign_row ampl i a of
        Inl e \<Rightarrow> Inl e
      | Inr ampl' \<Rightarrow> stability_loop ext self all_neighbors is vari' ampl'))))"

definition compute_features_stability ::
  "ext \<Rightarrow> smart_explainer \<Rightarrow> int list \<Rightarrow> error option \<times> smart_explainer" where
  "compute_features_stability ext self selection =
     (case multi_class self of
        Inl e \<Rightarrow> (Some e, self)
      | Inr True \<Rightarrow> (Some (AssertionError ''Multi-class classification is not supported''), self)
      | Inr False \<Rightarrow>
     (case call (ext_find_neighbors ext selection (x_init self) (model self) (u_case self)) of
        Inl e \<Rightarrow> (Some e, self)
      | Inr all_neighbors \<Rightarrow>
          if length selection = 1
          then (case item all_neighbors 0 of
                  Inl e \<Rightarrow> (Some e, self)
                | Inr nb \<Rightarrow>
               (case call (ext_shap_neighbors ext nb (x_init self) (contributions self)) of
                  Inl e \<Rightarrow> (Some e, self)
                | Inr (norm_shap, _, _) \<Rightarrow> (None, self\<lparr>local_neighbors := Some norm_shap\<rparr>)))
          else (let numb_expl = length selection;
                    ampl = zeros numb_expl (length (df_columns (x_pred self)));
                    vari = zeros numb_expl (length (df_columns (x_pred self)))
                in case stability_loop ext self all_neighbors [0 ..< numb_expl] vari ampl of
                     Inl e \<Rightarrow> (Some e, self)
                   | Inr (vari', ampl') \<Rightarrow>
                       (None, self\<lparr>features_stability :=
                                      Some \<lparr>variability = vari', amplitude = ampl'\<rparr>\<rparr>))))"

text \<open>
  \<^verbatim>\<open>np.clip(a, a_min, a_max)\<close> on the entries of an array of floats:
  \<^verbatim>\<open>np.minimum(np.maximum(a, a_min), a_max)\<close>, so a NaN entry stays NaN.
\<close>

definition clip :: "float64 list \<Rightarrow> float64 \<Rightarrow> float64 \<Rightarrow> float64 list" where
  "clip a a_min a_max = map (\<lambda>x. minimum (maximum x a_min) a_max) a"

definition compute_features_compacity ::
  "ext \<Rightarrow> smart_explainer \<Rightarrow> int list \<Rightarrow> real \<Rightarrow> int \<Rightarrow> error option \<times> smart_explainer" where
  "compute_features_compacity ext self selection distance nb_features =
     (case multi_class self of
        Inl e \<Rightarrow> (Some e, self)
      | Inr True \<Rightarrow> (Some (AssertionError ''Multi-class classification is not supported''), self)
      | Inr False \<Rightarrow>
     (case call (ext_get_min_nb_features ext selection (contributions self) (u_case self)
                   distance) of
        Inl e \<Rightarrow> (Some e, self)
      | Inr needed \<Rightarrow>
     (case call (ext_get_distance ext selection (contributions self) (u_case self)
                   nb_features) of
        Inl e \<Rightarrow> (Some e, self)
      | Inr reached \<Rightarrow>
          (let reached = clip reached (Finite 0) (Finite 1)
           in (None, self\<lparr>features_compacity :=
                            Some \<lparr>features_needed = needed, distance_reached = reached\<rparr>\<rparr>)))))"

section \<open>\<^verbatim>\<open>SmartExplainer.to_pandas\<close>\<close>

text \<open>
  Modelled from the spec: \<^verbatim>\<open>summarize\<close> of the state object. Section 4.6: ``per
  instance, an ordered interleaving of (feature name, feature value, contribution
  value) triples for every surviving (mask = true) ranked position, using
  human-readable names (resolved through the feature-identifier to name map)'';
  ``columns with no surviving features for a row yield a defined empty/absent
  placeholder, not a missing row''; a name that a map lacks falls back to the raw
  identifier (section 6). The placeholder is \<open>None\<close>. The three ranked tables
  ``always have identical shape'' and the ``mask shape always matches the ranked
  data it filters'' (section 3): tables of different shapes are a shape mismatch
  (section 7).
\<close>

definition feature_name :: "(nat \<times> string) list \<Rightarrow> (string \<times> string) list \<Rightarrow> int \<Rightarrow> feat" where
  "feature_name cd fd v =
     (case (if v < 0 then None else map_of cd (nat v)) of
        None \<Rightarrow> FId v
      | Some col \<Rightarrow> (case map_of fd col of None \<Rightarrow> FName col | Some name \<Rightarrow> FName name))"

definition summarize_row ::
  "(nat \<times> string) list \<Rightarrow> (string \<times> string) list \<Rightarrow>
     real list \<times> int list \<times> cell list \<times> bool list \<Rightarrow> (feat \<times> cell \<times> real) list" where
  "summarize_row cd fd row =
     (case row of (cs, vs, xs, ms) \<Rightarrow>
        map (\<lambda>(c, v, x, b). (feature_name cd fd v, x, c))
          (filter (\<lambda>(c, v, x, b). b) (zip cs (zip vs (zip xs ms)))))"

definition summarize ::
  "real frame \<Rightarrow> int frame \<Rightarrow> cell frame \<Rightarrow> bool frame \<Rightarrow>
     (nat \<times> string) list \<Rightarrow> (string \<times> string) list \<Rightarrow> error + summary_frame" where
  "summarize c v x m cd fd =
     (if shape v = shape c \<and> shape x = shape c \<and> shape m = shape c
      then (let rows = map (summarize_row cd fd)
                         (zip (df_values c) (zip (df_values v) (zip (df_values x) (df_values m))));
                width = fold max (map length rows) 0
            in Inr \<lparr>df_index = df_index c, df_columns = take width (df_columns c),
                    df_values = map (\<lambda>r. map Some r @ replicate (width - length r) None) rows\<rparr>)
      else Inl ShapeMismatchError)"

fun st_summarize ::
  "real frame obj \<Rightarrow> int frame obj \<Rightarrow> cell frame obj \<Rightarrow> bool frame obj \<Rightarrow>
     (nat \<times> string) list \<Rightarrow> (string \<times> string) list \<Rightarrow> error + summary_frame obj" where
  "st_summarize (Single c) (Single v) (Single x) (Single m) cd fd =
     (case summarize c v x m cd fd of Inl e \<Rightarrow> Inl e | Inr s \<Rightarrow> Inr (Single s))"
| "st_summarize (Multi cs) (Multi vs) (Multi xs) (Multi ms) cd fd =
     (if length vs = length cs \<and> length xs = length cs \<and> length ms = length cs
      then (case sequence (map (\<lambda>(c, v, x, m). summarize c v x m cd fd)
                             (zip cs (zip vs (zip xs ms)))) of
              Inl e \<Rightarrow> Inl e
            | Inr ss \<Rightarrow> Inr (Multi ss))
      else Inl ShapeMismatchError)"
| "st_summarize _ _ _ _ cd fd = Inl TypeError"

text \<open>
  Modelled from the spec: \<^verbatim>\<open>keep_right_contributions\<close> of
  \<^verbatim>\<open>shapash.manipulation.select_lines\<close>, which is not among the sources. Section
  4.6: the summary is ``finally joined with the user-supplied prediction value
  (and, optionally, model-estimated probability) to produce one row per
  instance''. The case ``determines whether [the table] is singular or a
  sequence'' (section 3), and the other representation is a type error (section
  4.1). For a regression the summary is one table, which is kept beside the
  predictions. For a classification the summary is a sequence of tables, ``one
  per output class, all sharing identical row/column index'': the row of an
  instance is its row in the table of the class predicted for it, the position of
  the prediction value among the class labels, and the probability joined is the
  one estimated for that class. ``An empty sequence is invalid''; rows or classes
  that do not align are a shape mismatch. Label dictionaries are out of the scope
  of the specification (section 1): the prediction value is joined as it is.
\<close>

definition predicted_class :: "int list \<Rightarrow> real list \<Rightarrow> error + nat" where
  "predicted_class classes row =
     (case row of
        [v] \<Rightarrow> (case index_of (map real_of_int classes) v of
                  None \<Rightarrow> Inl KeyError
                | Some k \<Rightarrow> Inr k)
      | _ \<Rightarrow> Inl ShapeMismatchError)"

definition right_row :: "'a frame list \<Rightarrow> nat \<times> nat \<Rightarrow> error + 'a list" where
  "right_row tables ik =
     (case ik of (i, k) \<Rightarrow>
        if k < length tables \<and> i < length (df_values (tables ! k))
        then Inr (df_values (tables ! k) ! i)
        else Inl ShapeMismatchError)"

definition right_proba :: "real frame option \<Rightarrow> nat \<times> nat \<Rightarrow> error + cell list" where
  "right_proba pvs ik =
     (case pvs of
        None \<Rightarrow> Inr []
      | Some pv \<Rightarrow>
          (case ik of (i, k) \<Rightarrow>
             if i < length (df_values pv) \<and> k < length (df_values pv ! i)
             then Inr [Num (df_values pv ! i ! k)]
             else Inl ShapeMismatchError))"

definition keep_right_contributions ::
  "real frame \<Rightarrow> summary_frame obj \<Rightarrow> string \<Rightarrow> int list option \<Rightarrow>
     (int \<times> string) list option \<Rightarrow> real frame option \<Rightarrow>
     error + (cell frame \<times> summary_frame)" where
  "keep_right_contributions yp sm c classes ld pvs =
     (if c = ''classification''
      then (case sm of
              Single _ \<Rightarrow> Inl TypeError
            | Multi tables \<Rightarrow>
               (case tables of
                  [] \<Rightarrow> Inl ShapeMismatchError
                | t # _ \<Rightarrow>
               (case classes of
                  None \<Rightarrow> Inl TypeError
                | Some cls \<Rightarrow>
                   if length cls \<noteq> length tables then Inl ShapeMismatchError
                   else
               (case sequence (map (predicted_class cls) (df_values yp)) of
                  Inl e \<Rightarrow> Inl e
                | Inr ks \<Rightarrow>
               (case sequence (map (right_row tables) (enumerate 0 ks)) of
                  Inl e \<Rightarrow> Inl e
                | Inr rows \<Rightarrow>
               (case sequence (map (right_proba pvs) (enumerate 0 ks)) of
                  Inl e \<Rightarrow> Inl e
                | Inr ps \<Rightarrow>
                    Inr (\<lparr>df_index = df_index yp,
                          df_columns = df_columns yp
                            @ (case pvs of None \<Rightarrow> [] | Some _ \<Rightarrow> [''proba'']),
                          df_values = map2 (\<lambda>r p. map Num r @ p) (df_values yp) ps\<rparr>,
                         \<lparr>df_index = df_index t, df_columns = df_columns t,
                          df_values = rows\<rparr>)))))))
      else (case sm of
              Single s \<Rightarrow> Inr (applymap Num yp, s)
            | Multi _ \<Rightarrow> Inl TypeError))"

text \<open>
  \<^verbatim>\<open>pd.concat([a, b], axis=1)\<close>: the rows of \<open>a\<close> and \<open>b\<close> side by side, matched on
  the row labels. Equal indexes are kept; different indexes without duplicates
  give their union, a row that a table lacks being absent; a duplicate label
  cannot be matched.
\<close>

record ('a, 'b) joined =
  j_index :: "int list"
  j_columns :: "string list"
  j_rows :: "('a list option \<times> 'b list option) list"

definition concat_axis1 :: "'a frame \<Rightarrow> 'b frame \<Rightarrow> error + ('a, 'b) joined" where
  "concat_axis1 a b =
     (if df_index a = df_index b
      then Inr \<lparr>j_index = df_index a, j_columns = df_columns a @ df_columns b,
               j_rows = map2 (\<lambda>r s. (Some r, Some s)) (df_values a) (df_values b)\<rparr>
      else if distinct (df_index a) \<and> distinct (df_index b)
      then (let labels = df_index a @ filter (\<lambda>l. l \<notin> set (df_index a)) (df_index b)
            in Inr \<lparr>j_index = labels, j_columns = df_columns a @ df_columns b,
                    j_rows = map (\<lambda>l. (map_of (zip (df_index a) (df_values a)) l,
                                       map_of (zip (df_index b) (df_values b)) l)) labels\<rparr>)
      else Inl (ValueError ''cannot reindex on an axis with duplicate labels''))"

text \<open>
  The test of lines 901 to 911, with \<open>dat\<close> the data chosen: all four parameters
  are \<^verbatim>\<open>None\<close>, the attribute \<^verbatim>\<open>mask_params\<close> exists, and the mask stored has as many
  columns as \<^verbatim>\<open>contrib_sorted\<close> (the first tables of both, for lists). The operands
  of \<^verbatim>\<open>and\<close> and \<^verbatim>\<open>or\<close> are evaluated from left to right, and reading a mask that
  does not exist, or that is of the other kind, raises.
\<close>

definition cached_mask_usable ::
  "smart_explainer \<Rightarrow> data \<Rightarrow> feat list option \<Rightarrow> real option \<Rightarrow> bool option \<Rightarrow> int option \<Rightarrow>
     error + bool" where
  "cached_mask_usable self dat features_to_hide threshold positive max_contrib =
     (if features_to_hide = None \<and> threshold = None \<and> positive = None \<and> max_contrib = None
      then (case mask_params self of
              None \<Rightarrow> Inr False
            | Some _ \<Rightarrow>
               (case contrib_sorted dat of
                  Single c \<Rightarrow>
                    (case mask self of
                       None \<Rightarrow> Inl AttributeError
                     | Some mk \<Rightarrow>
                        (case mk of
                           Single m \<Rightarrow> Inr (length (df_columns c) = length (df_columns m))
                         | Multi _ \<Rightarrow> Inl AttributeError))
                | Multi cs \<Rightarrow>
                    (case cs of
                       [] \<Rightarrow> Inl IndexError
                     | c # _ \<Rightarrow>
                        (case mask self of
                           None \<Rightarrow> Inl AttributeError
                         | Some mk \<Rightarrow>
                            (case mk of
                               Single _ \<Rightarrow> Inl KeyError
                             | Multi ms \<Rightarrow>
                                (case ms of
                                   [] \<Rightarrow> Inl IndexError
                                 | m # _ \<Rightarrow>
                                     Inr (length (df_columns c) = length (df_columns m))))))))
      else Inr False)"

text \<open>
  Lines 919 to 943: the summary of the data under the mask stored, kept under
  the key \<^verbatim>\<open>summary\<close> of the data, and its join with the predictions.
  \<^verbatim>\<open>predict_proba\<close> (line 820) stores what the collaborator returns.
\<close>

definition summary_and_join ::
  "ext \<Rightarrow> smart_explainer \<Rightarrow> data \<Rightarrow> real frame \<Rightarrow> bool \<Rightarrow> bool \<Rightarrow>
     (error + (cell, (feat \<times> cell \<times> real) option) joined) \<times> smart_explainer" where
  "summary_and_join ext self dat yp proba use_groups =
     (case (if use_groups
            then (case x_pred_groups self of
                    None \<Rightarrow> Inl AttributeError
                  | Some xg \<Rightarrow> Inr (enumerate 0 (df_columns xg)))
            else Inr (columns_dict self)) of
        Inl e \<Rightarrow> (Inl e, self)
      | Inr cd \<Rightarrow>
     (case mask self of
        None \<Rightarrow> (Inl AttributeError, self)
      | Some m \<Rightarrow>
     (case st_summarize (contrib_sorted dat) (var_dict dat) (x_sorted dat) m cd
             (features_dict self) of
        Inl e \<Rightarrow> (Inl e, self)
      | Inr sm \<Rightarrow>
      let self = (if use_groups then self\<lparr>data_groups := Some (dat\<lparr>summary := Some sm\<rparr>)\<rparr>
                  else self\<lparr>data := dat\<lparr>summary := Some sm\<rparr>\<rparr>) in
      case (if proba
            then (case call (ext_predict_proba ext (model self) (x_init self) (u_classes self)) of
                    Inl e \<Rightarrow> Inl e
                  | Inr pv \<Rightarrow> Inr (self\<lparr>proba_values := Some pv\<rparr>, Some pv))
            else Inr (self, None)) of
        Inl e \<Rightarrow> (Inl e, self)
      | Inr (self, pvs) \<Rightarrow>
     (case keep_right_contributions yp sm (u_case self) (u_classes self)
             (label_dict self) pvs of
        Inl e \<Rightarrow> (Inl e, self)
      | Inr (y, sm') \<Rightarrow>
     (case concat_axis1 y sm' of
        Inl e \<Rightarrow> (Inl e, self)
      | Inr df \<Rightarrow> (Inr df, self))))))"

text \<open>
  \<^verbatim>\<open>to_pandas\<close> (line 832): the choice of the data, the test of \<^verbatim>\<open>y_pred\<close> (line
  895), the mask (kept, or computed by \<^verbatim>\<open>filter\<close> with the parameters of the call)
  and the summary. The result is the table returned or the exception raised, and
  the object as the call leaves it.
\<close>

definition to_pandas ::
  "ext \<Rightarrow> smart_explainer \<Rightarrow> feat list option \<Rightarrow> real option \<Rightarrow> bool option \<Rightarrow> int option \<Rightarrow>
     bool \<Rightarrow> bool option \<Rightarrow>
     (error + (cell, (feat \<times> cell \<times> real) option) joined) \<times> smart_explainer" where
  "to_pandas ext self features_to_hide threshold positive max_contrib proba use_groups =
     (let use_groups = (use_groups \<noteq> Some False \<and> features_groups self \<noteq> None) in
      case (if use_groups then data_groups self else Some (data self)) of
        None \<Rightarrow> (Inl AttributeError, self)
      | Some dat \<Rightarrow>
     (case y_pred self of
        None \<Rightarrow>
          (Inl (ValueError
             ''You have to specify y_pred argument. Please use add() or compile() method''),
           self)
      | Some yp \<Rightarrow>
     (case cached_mask_usable self dat features_to_hide threshold positive max_contrib of
        Inl e \<Rightarrow> (Inl e, self)
      | Inr cached \<Rightarrow>
     (case (if cached then (None, self)
            else filter_xpl ext self features_to_hide threshold positive max_contrib
                   (Some use_groups)) of
        (Some e, self) \<Rightarrow> (Inl e, self)
      | (None, self) \<Rightarrow> summary_and_join ext self dat yp proba use_groups))))"

section \<open>\<^verbatim>\<open>SmartExplainer.compile\<close>\<close>

text \<open>
  Dictionaries are association lists with one entry per key: \<^verbatim>\<open>d[k] = v\<close> is
  \<open>AList.update k v d\<close>, \<^verbatim>\<open>k in d\<close> is membership in the keys, and the comprehension
  \<^verbatim>\<open>{v: k for k, v in d.items()}\<close> inserts from left to right, a later entry
  replacing an earlier one with the same value.
\<close>

definition inv_dict :: "('k \<times> 'v) list \<Rightarrow> ('v \<times> 'k) list" where
  "inv_dict d = fold (\<lambda>(k, v) acc. AList.update v k acc) d []"

text \<open>
  \<^verbatim>\<open>check_features_dict\<close> (line 564): every column name that is not a key of
  \<^verbatim>\<open>features_dict\<close> becomes a key that maps to itself. Python iterates over the set
  difference in an order of its own; the model takes the order of the columns,
  and the dictionary as a lookup table does not depend on it.
\<close>

definition check_features_dict :: "smart_explainer \<Rightarrow> smart_explainer" where
  "check_features_dict self =
     self\<lparr>features_dict :=
            fold (\<lambda>feature fd. AList.update feature feature fd)
              (filter (\<lambda>c. c \<notin> set (map fst (features_dict self)))
                 (remdups (map snd (columns_dict self))))
              (features_dict self)\<rparr>"

text \<open>\<^verbatim>\<open>choose_state\<close> (line 331).\<close>

definition choose_state :: "'a obj \<Rightarrow> state" where
  "choose_state contribs =
     (case contribs of Multi _ \<Rightarrow> MultiDecorator SmartState | Single _ \<Rightarrow> SmartState)"

text \<open>
  \<^verbatim>\<open>modify_postprocessing\<close> (line 466): the keys of the post-processing, given as
  feature names, column numbers or display names, become feature names. The
  message of the exception leaves the key out.
\<close>

fun modify_keys ::
  "smart_explainer \<Rightarrow> (feat \<times> postprocess) list \<Rightarrow> (string \<times> postprocess) list \<Rightarrow>
     error + (string \<times> postprocess) list" where
  "modify_keys self [] new_dic = Inr new_dic"
| "modify_keys self ((FName key, rule) # rest) new_dic =
     (if key \<in> set (map fst (features_dict self))
      then modify_keys self rest (AList.update key rule new_dic)
      else (case map_of (inv_features_dict self) key of
              Some name \<Rightarrow> modify_keys self rest (AList.update name rule new_dic)
            | None \<Rightarrow> Inl (ValueError ''Feature name not found in the dataset.'')))"
| "modify_keys self ((FId key, rule) # rest) new_dic =
     (case (if key < 0 then None else map_of (columns_dict self) (nat key)) of
        Some name \<Rightarrow> modify_keys self rest (AList.update name rule new_dic)
      | None \<Rightarrow> Inl (ValueError ''Feature name not found in the dataset.''))"

definition modify_postprocessing ::
  "smart_explainer \<Rightarrow> (feat \<times> postprocess) list option \<Rightarrow>
     error + (string \<times> postprocess) list option" where
  "modify_postprocessing self postproc =
     (case postproc of
        None \<Rightarrow> Inr None
      | Some d \<Rightarrow>
          if d = [] then Inr None
          else (case modify_keys self d [] of Inl e \<Rightarrow> Inl e | Inr new_dic \<Rightarrow> Inr (Some new_dic)))"

text \<open>
  \<^verbatim>\<open>check_postprocessing_modif_strings\<close> (line 442): some prefix or suffix applies to
  a numeric column of \<^verbatim>\<open>x_pred\<close>. \<^verbatim>\<open>self.x_pred[key]\<close> is a \<^verbatim>\<open>KeyError\<close> for a key
  that is not a column; a column is numeric when every cell of it is a number.
\<close>

definition is_numeric_column :: "cell frame \<Rightarrow> string \<Rightarrow> error + bool" where
  "is_numeric_column x key =
     (case index_of (df_columns x) key of
        None \<Rightarrow> Inl KeyError
      | Some j \<Rightarrow>
          Inr (list_all (\<lambda>row. j < length row \<and> (case row ! j of Num _ \<Rightarrow> True | Str _ \<Rightarrow> False))
                 (df_values x)))"

fun modif_loop :: "cell frame \<Rightarrow> (string \<times> postprocess) list \<Rightarrow> bool \<Rightarrow> error + bool" where
  "modif_loop x [] modif = Inr modif"
| "modif_loop x ((key, dict_postprocess) # rest) modif =
     (if pp_type dict_postprocess = ''prefix'' \<or> pp_type dict_postprocess = ''suffix''
      then (case is_numeric_column x key of
              Inl e \<Rightarrow> Inl e
            | Inr numeric \<Rightarrow> modif_loop x rest (if numeric then True else modif))
      else modif_loop x rest modif)"

definition check_postprocessing_modif_strings ::
  "smart_explainer \<Rightarrow> (string \<times> postprocess) list option \<Rightarrow> error + bool" where
  "check_postprocessing_modif_strings self postproc =
     (case postproc of
        None \<Rightarrow> Inr False
      | Some d \<Rightarrow> modif_loop (x_pred self) d False)"

text \<open>
  \<^verbatim>\<open>check_features_desc\<close> (line 664): \<^verbatim>\<open>dict(self.x_pred.nunique())\<close>, the number of
  distinct values of each column.
\<close>

definition check_features_desc :: "smart_explainer \<Rightarrow> (string \<times> nat) list" where
  "check_features_desc self =
     fold (\<lambda>(j, col) acc.
             AList.update col
               (length (remdups (map (\<lambda>row. row ! j) (df_values (x_pred self))))) acc)
       (enumerate 0 (df_columns (x_pred self))) []"

text \<open>
  Modelled from the spec: \<^verbatim>\<open>assign_contributions\<close> of the state object. Section 4.2:
  it ``packages the three parallel tables for downstream consumption''.
\<close>

definition assign_contributions ::
  "real frame obj \<times> int frame obj \<times> cell frame obj \<Rightarrow> data" where
  "assign_contributions ranked =
     (case ranked of (c, v, x) \<Rightarrow>
        \<lparr>contrib_sorted = c, var_dict = v, x_sorted = x, summary = None\<rparr>)"

text \<open>\<^verbatim>\<open>_update_features_dict_with_groups\<close> (line 572).\<close>

fun update_features_dict_with_groups :: "string list \<Rightarrow> smart_explainer \<Rightarrow> smart_explainer" where
  "update_features_dict_with_groups [] self = self"
| "update_features_dict_with_groups (group_name # rest) self =
     update_features_dict_with_groups rest
       (let self = self\<lparr>features_desc := AList.update group_name 1000 (features_desc self)\<rparr>
        in if group_name \<in> set (map fst (features_dict self)) then self
           else self\<lparr>features_dict := AList.update group_name group_name (features_dict self),
                      inv_features_dict :=
                        AList.update group_name group_name (inv_features_dict self)\<rparr>)"

text \<open>\<^verbatim>\<open>_compile_features_groups\<close> (line 261).\<close>

definition compile_features_groups ::
  "ext \<Rightarrow> smart_explainer \<Rightarrow> (string \<times> string list) list \<Rightarrow> error option \<times> smart_explainer" where
  "compile_features_groups ext self groups =
     (case call (ext_compute_grouped_contributions ext (contributions self) groups) of
        Inl e \<Rightarrow> (Some e, self)
      | Inr cg \<Rightarrow>
      let self = self\<lparr>contributions_groups := Some cg, features_imp_groups := Some None\<rparr>;
          self = update_features_dict_with_groups (map fst groups) self in
      case call (ext_create_grouped_features_values ext (x_pred self) (x_init self)
                   (preprocessing self) (features_groups self) (features_dict self)) of
        Inl e \<Rightarrow> (Some e, self)
      | Inr xg \<Rightarrow>
      let self = self\<lparr>x_pred_groups := Some xg\<rparr> in
      case call (ext_rank_contributions ext cg xg) of
        Inl e \<Rightarrow> (Some e, self)
      | Inr ranked \<Rightarrow>
          (None, self\<lparr>data_groups := Some (assign_contributions ranked),
                        columns_dict_groups := Some (enumerate 0 (df_columns xg))\<rparr>))"

text \<open>
  \<^verbatim>\<open>compile\<close> (line 139), in five parts; each returns the exception raised, if any,
  and the object as it is then.

  Lines 215 to 224: the prediction set, the model, the labels, and the test that
  the explainer and the contributions are not both given.
\<close>

definition compile_inputs ::
  "ext \<Rightarrow> smart_explainer \<Rightarrow> cell frame \<Rightarrow> opaque \<Rightarrow> opaque option \<Rightarrow> real frame obj option \<Rightarrow>
     opaque list option \<Rightarrow> error option \<times> smart_explainer" where
  "compile_inputs ext self x mdl expl contribs preproc =
     (let self = self\<lparr>x_init := x\<rparr> in
      case call (ext_inverse_transform ext (x_init self) preproc) of
        Inl e \<Rightarrow> (Some e, self)
      | Inr xp \<Rightarrow>
      let self = self\<lparr>x_pred := xp, preprocessing := preproc, model := mdl\<rparr> in
      case call (ext_check_model ext (model self)) of
        Inl e \<Rightarrow> (Some e, self)
      | Inr (c, cs) \<Rightarrow>
      let self = self\<lparr>u_case := c, u_classes := cs\<rparr> in
      case (if u_case self \<noteq> ''regression''
            then call (ext_check_label_dict ext (label_dict self) (u_case self) (u_classes self))
            else Inr ()) of
        Inl e \<Rightarrow> (Some e, self)
      | Inr _ \<Rightarrow>
      let self = (case label_dict self of
                    None \<Rightarrow> self
                  | Some d \<Rightarrow> if d = [] then self else self\<lparr>inv_label_dict := inv_dict d\<rparr>) in
      if expl \<noteq> None \<and> contribs \<noteq> None
      then (Some (ValueError
              ''You have to specify just one of these arguments: explainer, contributions''),
            self)
      else (None, self))"

text \<open>
  Lines 225 to 232: the contributions (computed by the backend when they are not
  given), the state, their validation against the prediction set, and \<^verbatim>\<open>y_pred\<close>.
  The message of line 587 is shortened.
\<close>

definition compile_contributions ::
  "ext \<Rightarrow> smart_explainer \<Rightarrow> opaque \<Rightarrow> opaque option \<Rightarrow> real frame obj option \<Rightarrow>
     real frame option \<Rightarrow> opaque list option \<Rightarrow> error option \<times> smart_explainer" where
  "compile_contributions ext self mdl expl contribs ypred preproc =
     (case (case contribs of
              None \<Rightarrow>
                (case call (ext_check_explainer ext expl) of
                   Inl e \<Rightarrow> Inl e
                 | Inr ex \<Rightarrow> call (ext_shap_contributions ext mdl (x_init self) ex))
            | Some c \<Rightarrow> Inr (c, expl)) of
        Inl e \<Rightarrow> (Some e, self)
      | Inr (contribs, expl) \<Rightarrow>
     (case call (ext_adapt_contributions ext (u_case self) contribs) of
        Inl e \<Rightarrow> (Some e, self)
      | Inr adapt_contrib \<Rightarrow>
      let self = self\<lparr>state := choose_state adapt_contrib\<rparr> in
      case call (ext_check_contribution_object ext (u_case self) (u_classes self)
                   adapt_contrib) of
        Inl e \<Rightarrow> (Some e, self)
      | Inr _ \<Rightarrow>
     (case call (ext_validate_contributions ext adapt_contrib (x_init self)) of
        Inl e \<Rightarrow> (Some e, self)
      | Inr valid \<Rightarrow>
     (case (case preproc of
              None \<Rightarrow> Inr valid
            | Some encoders \<Rightarrow>
                if encoders = [] then Inr valid
                else call (ext_inverse_transform_contributions ext valid encoders)) of
        Inl e \<Rightarrow> (Some e, self)
      | Inr contrib \<Rightarrow>
      let self = self\<lparr>contributions := contrib\<rparr> in
      case call (ext_check_contributions ext (contributions self) (x_pred self)) of
        Inl e \<Rightarrow> (Some e, self)
      | Inr matching \<Rightarrow>
          if \<not> matching
          then (Some (ValueError
                  ''Prediction set and contributions should have exactly the same number of lines and number of columns.''),
                self)
          else
      let self = self\<lparr>explainer := expl\<rparr> in
      case call (ext_check_ypred ext (x_pred self) ypred) of
        Inl e \<Rightarrow> (Some e, self)
      | Inr y \<Rightarrow> (None, self\<lparr>y_pred := y\<rparr>)))))"

text \<open>Lines 233 to 236: the dictionaries of the columns and of the feature names.\<close>

definition compile_names :: "smart_explainer \<Rightarrow> smart_explainer" where
  "compile_names self =
     (let self = self\<lparr>columns_dict := enumerate 0 (df_columns (x_pred self))\<rparr>;
          self = self\<lparr>inv_columns_dict := inv_dict (columns_dict self)\<rparr>;
          self = check_features_dict self
      in self\<lparr>inv_features_dict := inv_dict (features_dict self)\<rparr>)"

text \<open>Lines 237 to 243: the post-processing of the prediction set.\<close>

definition compile_postprocessing ::
  "ext \<Rightarrow> smart_explainer \<Rightarrow> (feat \<times> postprocess) list option \<Rightarrow>
     error option \<times> smart_explainer" where
  "compile_postprocessing ext self postproc =
     (case modify_postprocessing self postproc of
        Inl e \<Rightarrow> (Some e, self)
      | Inr postproc \<Rightarrow>
     (case call (ext_check_postprocessing ext (x_pred self) postproc) of
        Inl e \<Rightarrow> (Some e, self)
      | Inr _ \<Rightarrow>
     (case check_postprocessing_modif_strings self postproc of
        Inl e \<Rightarrow> (Some e, self)
      | Inr modif \<Rightarrow>
      let self = self\<lparr>postprocessing_modifications := modif, postprocessing := postproc\<rparr>;
          self = (if postprocessing_modifications self
                  then self\<lparr>x_contrib_plot := Some (x_pred self)\<rparr> else self) in
      case (case postproc of
              None \<Rightarrow> Inr (x_pred self)
            | Some d \<Rightarrow>
                if d = [] then Inr (x_pred self)
                else call (ext_apply_postprocessing ext (x_pred self) d)) of
        Inl e \<Rightarrow> (Some e, self)
      | Inr xp \<Rightarrow> (None, self\<lparr>x_pred := xp\<rparr>))))"

text \<open>Lines 244 to 259: the ranked data, the groups and the empty diagnostics.\<close>

definition compile_data ::
  "ext \<Rightarrow> smart_explainer \<Rightarrow> string option \<Rightarrow> (string \<times> string list) list option \<Rightarrow>
     error option \<times> smart_explainer" where
  "compile_data ext self title groups =
     (case call (ext_rank_contributions ext (contributions self) (x_pred self)) of
        Inl e \<Rightarrow> (Some e, self)
      | Inr ranked \<Rightarrow>
      let self = self\<lparr>data := assign_contributions ranked, features_imp := None\<rparr>;
          self = self\<lparr>features_desc := check_features_desc self\<rparr>;
          self = (case title of None \<Rightarrow> self | Some t \<Rightarrow> self\<lparr>title_story := t\<rparr>);
          self = self\<lparr>features_groups := groups\<rparr> in
      case (case groups of
              None \<Rightarrow> (None, self)
            | Some g \<Rightarrow> if g = [] then (None, self) else compile_features_groups ext self g) of
        (Some e, self) \<Rightarrow> (Some e, self)
      | (None, self) \<Rightarrow>
          (None, self\<lparr>local_neighbors := None, features_stability := None,
                        features_compacity := None\<rparr>))"

definition compile ::
  "ext \<Rightarrow> smart_explainer \<Rightarrow> cell frame \<Rightarrow> opaque \<Rightarrow> opaque option \<Rightarrow> real frame obj option \<Rightarrow>
     real frame option \<Rightarrow> opaque list option \<Rightarrow> (feat \<times> postprocess) list option \<Rightarrow>
     string option \<Rightarrow> (string \<times> string list) list option \<Rightarrow> error option \<times> smart_explainer" where
  "compile ext self x mdl expl contribs ypred preproc postproc title groups =
     (case compile_inputs ext self x mdl expl contribs preproc of
        (Some e, self) \<Rightarrow> (Some e, self)
      | (None, self) \<Rightarrow>
     (case compile_contributions ext self mdl expl contribs ypred preproc of
        (Some e, self) \<Rightarrow> (Some e, self)
      | (None, self) \<Rightarrow>
     (case compile_postprocessing ext (compile_names self) postproc of
        (Some e, self) \<Rightarrow> (Some e, self)
      | (None, self) \<Rightarrow> compile_data ext self title groups)))"

section \<open>A compiled explainer to run the model on\<close>

text \<open>
  Two instances and three features \<open>a\<close>, \<open>b\<close>, \<open>c\<close> of a regression; the rows of
  the contributions are \<open>(0.5, 0.05, -0.3)\<close> and \<open>(0.2, -0.4, 0.1)\<close>, ranked by
  magnitude in \<open>data0\<close>.
\<close>

definition frame0 :: "'a list list \<Rightarrow> 'a frame" where
  "frame0 vs = \<lparr>df_index = [0, 1], df_columns = [''a'', ''b'', ''c''], df_values = vs\<rparr>"

definition data0 :: data where
  "data0 =
     \<lparr>contrib_sorted = Single (frame0 [[1/2, -3/10, 1/20], [-2/5, 1/5, 1/10]]),
      var_dict = Single (frame0 [[0, 2, 1], [1, 0, 2]]),
      x_sorted = Single (frame0 [[Num 1, Num 3, Num 2], [Num 5, Num 4, Num 6]]),
      summary = None\<rparr>"

definition xpl0 :: smart_explainer where
  "xpl0 =
     \<lparr>features_dict = [(''a'', ''a''), (''b'', ''b''), (''c'', ''c'')],
      inv_features_dict = [(''a'', ''a''), (''b'', ''b''), (''c'', ''c'')],
      label_dict = None,
      inv_label_dict = [],
      title_story = [],
      features_groups = None,
      x_init = frame0 [[Num 1, Num 2, Num 3], [Num 4, Num 5, Num 6]],
      x_pred = frame0 [[Num 1, Num 2, Num 3], [Num 4, Num 5, Num 6]],
      x_contrib_plot = None,
      preprocessing = None,
      model = Opaque 0,
      u_case = ''regression'',
      u_classes = None,
      state = SmartState,
      contributions = Single (frame0 [[1/2, 1/20, -3/10], [1/5, -2/5, 1/10]]),
      explainer = None,
      y_pred = Some \<lparr>df_index = [0, 1], df_columns = [''pred''], df_values = [[7], [9]]\<rparr>,
      columns_dict = [(0, ''a''), (1, ''b''), (2, ''c'')],
      inv_columns_dict = [(''a'', 0), (''b'', 1), (''c'', 2)],
      postprocessing_modifications = False,
      postprocessing = None,
      data = data0,
      features_imp = None,
      features_desc = [(''a'', 2), (''b'', 2), (''c'', 2)],
      contributions_groups = None,
      features_imp_groups = None,
      x_pred_groups = None,
      data_groups = None,
      columns_dict_groups = None,
      local_neighbors = None,
      features_stability = None,
      features_compacity = None,
      mask = None,
      masked_contributions = None,
      mask_params = None,
      proba_values = None\<rparr>"

text \<open>
  Collaborators to run the model with: column numbers are accepted and names
  rejected; an instance has itself and one other row as its neighbourhood; the
  model is a regression and every check passes; the ranking, the grouping and the
  transformations are placeholders that return their argument.
\<close>

fun feat_ids :: "feat list \<Rightarrow> nat + int list" where
  "feat_ids [] = Inr []"
| "feat_ids (FId i # fs) = (case feat_ids fs of Inl e \<Rightarrow> Inl e | Inr is \<Rightarrow> Inr (i # is))"
| "feat_ids (FName _ # fs) = Inl 1"

definition ext0 :: ext where
  "ext0 =
     \<lparr>ext_check_features_name = (\<lambda>cd fd fs. feat_ids fs),
      ext_find_neighbors = (\<lambda>sel x m c. Inr (map (\<lambda>i. [[1, 2, 3], [4, 5, 6]]) sel)),
      ext_shap_neighbors =
        (\<lambda>nb x c. Inr ([[1, 1/10, -3/5], [1/2, -1, 1/4]], [1/10, 2/10, 3/10], [3/4, 11/20, 17/40])),
      ext_get_min_nb_features = (\<lambda>sel c k d. Inr (map (\<lambda>i. 2) sel)),
      ext_get_distance = (\<lambda>sel c k n. Inr (map (\<lambda>i. Finite (3/2)) sel)),
      ext_predict_proba = (\<lambda>m x cs. Inr (applymap (\<lambda>_. 1/2) x)),
      ext_inverse_transform = (\<lambda>x pre. Inr x),
      ext_check_model = (\<lambda>m. Inr (''regression'', None)),
      ext_check_label_dict = (\<lambda>ld c cs. Inr ()),
      ext_check_explainer = (\<lambda>e. Inr e),
      ext_shap_contributions =
        (\<lambda>m x e. Inr (Single (applymap (\<lambda>_. 1) x), Some (Opaque 1))),
      ext_adapt_contributions = (\<lambda>c contrib. Inr contrib),
      ext_check_contribution_object = (\<lambda>c cs contrib. Inr ()),
      ext_validate_contributions = (\<lambda>contrib x. Inr contrib),
      ext_inverse_transform_contributions = (\<lambda>contrib pre. Inr contrib),
      ext_check_contributions =
        (\<lambda>contrib x. Inr (list_all (\<lambda>f. shape f = shape x) (frames_of contrib))),
      ext_check_ypred = (\<lambda>x y. Inr y),
      ext_check_postprocessing = (\<lambda>x pp. Inr ()),
      ext_apply_postprocessing = (\<lambda>x pp. Inr x),
      ext_rank_contributions =
        (\<lambda>contrib x. Inr (contrib, map_obj (applymap (\<lambda>_. 0)) contrib,
                           map_obj (\<lambda>_. x) contrib)),
      ext_compute_grouped_contributions = (\<lambda>contrib groups. Inr contrib),
      ext_create_grouped_features_values = (\<lambda>xp xi pre groups fd. Inr xp)\<rparr>"

text \<open>The same data for a classification with three classes.\<close>

definition xpl_multi :: smart_explainer where
  "xpl_multi =
     xpl0\<lparr>u_case := ''classification'', u_classes := Some [0, 1, 2],
          state := MultiDecorator SmartState,
          contributions := Multi (replicate 3 (frame0 [[1/2, 1/20, -3/10], [1/5, -2/5, 1/10]])),
          data := \<lparr>contrib_sorted = Multi (replicate 3 (frame0 [[1/2, -3/10, 1/20], [-2/5, 1/5, 1/10]])),
                    var_dict = Multi (replicate 3 (frame0 [[0, 2, 1], [1, 0, 2]])),
                    x_sorted = Multi (replicate 3 (frame0 [[Num 1, Num 3, Num 2], [Num 5, Num 4, Num 6]])),
                    summary = None\<rparr>\<rparr>"

section \<open>Notions of the specification\<close>

text \<open>
  The error kinds of section 7 of the specification, as the exceptions that the
  code raises for them.
\<close>

abbreviation UnsupportedCaseError :: error where
  "UnsupportedCaseError \<equiv> AssertionError ''Multi-class classification is not supported''"


text \<open>An array of \<open>n\<close> rows of \<open>f\<close> entries each: the numpy shape \<open>(n, f)\<close>.\<close>

definition has_rows :: "nat \<Rightarrow> nat \<Rightarrow> 'a list list \<Rightarrow> bool" where
  "has_rows n f a = (length a = n \<and> list_all (\<lambda>r. length r = f) a)"




text \<open>A float of the closed interval from 0 to 1; NaN and the infinities are not.\<close>

fun in_unit :: "float64 \<Rightarrow> bool" where
  "in_unit (Finite x) = (0 \<le> x \<and> x \<le> 1)"
| "in_unit _ = False"

text \<open>
  The collaborators of the example with a \<^verbatim>\<open>get_distance\<close> that has no distance
  for the first instance of the selection.
\<close>

definition ext_nan :: ext where
  "ext_nan = ext0\<lparr>ext_get_distance := (\<lambda>sel c k n. Inr [NaN, Finite (3/2)])\<rparr>"

text \<open>
  The shape of a table or of a sequence of tables, the cell of table \<open>k\<close>, row \<open>i\<close>
  and rank position \<open>j\<close>, and the number of entries still visible in a row of a
  mask before position \<open>j\<close>.
\<close>

definition obj_shape :: "'a frame obj \<Rightarrow> (nat \<times> nat list) obj" where
  "obj_shape x = map_obj shape x"

definition cell_at :: "'a frame obj \<Rightarrow> nat \<Rightarrow> nat \<Rightarrow> nat \<Rightarrow> 'a" where
  "cell_at x k i j = df_values (frames_of x ! k) ! i ! j"

definition in_table :: "'a frame obj \<Rightarrow> nat \<Rightarrow> nat \<Rightarrow> nat \<Rightarrow> bool" where
  "in_table x k i j =
     (k < length (frames_of x) \<and> i < length (df_values (frames_of x ! k))
      \<and> j < length (df_values (frames_of x ! k) ! i))"


text \<open>
  Lines 729 to 733 of \<^verbatim>\<open>filter\<close> (and 888 to 892 of \<^verbatim>\<open>to_pandas\<close>): the data that a
  call works on.
\<close>

definition shown_data :: "smart_explainer \<Rightarrow> bool option \<Rightarrow> data option" where
  "shown_data self groups =
     (if groups \<noteq> Some False \<and> features_groups self \<noteq> None then data_groups self
      else Some (data self))"

text \<open>
  The column numbers that a call of \<^verbatim>\<open>filter\<close> hides: none when
  \<^verbatim>\<open>features_to_hide\<close> is \<^verbatim>\<open>None\<close> or empty.
\<close>

definition hidden_features ::
  "ext \<Rightarrow> smart_explainer \<Rightarrow> feat list option \<Rightarrow> bool option \<Rightarrow> error + int list" where
  "hidden_features ext self features_to_hide groups =
     (case features_to_hide of
        None \<Rightarrow> Inr []
      | Some fth \<Rightarrow>
          if fth = [] then Inr []
          else check_features_name ext self fth
                 (groups \<noteq> Some False \<and> features_groups self \<noteq> None))"

text \<open>
  Section 4.3 of the specification, for one ranked position holding feature \<open>v\<close>
  with contribution \<open>c\<close>: the conjunction of the criteria supplied, a criterion
  that is not supplied being no constraint.
\<close>

definition passes :: "int list \<Rightarrow> real option \<Rightarrow> bool option \<Rightarrow> int \<Rightarrow> real \<Rightarrow> bool" where
  "passes hidden threshold positive v c =
     (v \<notin> set hidden
      \<and> (case threshold of None \<Rightarrow> True | Some t \<Rightarrow> \<not> \<bar>c\<bar> < t)
      \<and> (case positive of None \<Rightarrow> True | Some p \<Rightarrow> if p then \<not> c \<le> 0 else \<not> c \<ge> 0))"

text \<open>
  The mask stored has as many columns as \<^verbatim>\<open>contrib_sorted\<close> (the first tables of
  both, for a classification): the shape test of lines 906 to 910.
\<close>

fun same_width :: "real frame obj \<Rightarrow> bool frame obj \<Rightarrow> bool" where
  "same_width (Single c) (Single m) = (length (df_columns c) = length (df_columns m))"
| "same_width (Multi (c # _)) (Multi (m # _)) = (length (df_columns c) = length (df_columns m))"
| "same_width _ _ = False"

text \<open>The example after \<^verbatim>\<open>filter\<close> has hidden feature 0 below the threshold 0.1.\<close>

definition xpl_filtered :: smart_explainer where
  "xpl_filtered =
     xpl0\<lparr>mask := Some (Single (frame0 [[False, True, False], [True, False, True]])),
          masked_contributions :=
            Some (Single (frame0 [[None, Some (-3/10), None], [Some (-2/5), None, Some (1/10)]])),
          mask_params := Some \<lparr>mp_features_to_hide = Some [FId 0], mp_threshold = Some (1/10),
                                mp_positive = None, mp_max_contrib = None\<rparr>\<rparr>"


abbreviation BothGivenError :: error where
  "BothGivenError \<equiv>
     ValueError ''You have to specify just one of these arguments: explainer, contributions''"

text \<open>
  An explainer whose naming dictionary knows one of the three columns, and the
  prediction set to compile it on.
\<close>

definition xpl_new :: smart_explainer where
  "xpl_new = xpl0\<lparr>features_dict := [(''a'', ''Age'')], inv_features_dict := []\<rparr>"

definition x0 :: "cell frame" where
  "x0 = frame0 [[Num 1, Num 2, Num 3], [Num 4, Num 5, Num 6]]"


section \<open>Properties\<close>

subsection \<open>Collaborators and the guard of the diagnostics\<close>

lemma call_cases: "call r = Inl e \<Longrightarrow> \<exists>n. e = ExternalError n"
  by (auto simp: call_def split: sum.splits)

lemma multi_class_True:
  "multi_class self = Inr True \<longleftrightarrow>
     u_case self = ''classification'' \<and> (\<exists>cs. u_classes self = Some cs \<and> 2 < length cs)"
  by (auto simp: multi_class_def split: option.splits)

lemma stability_loop_errors:
  "stability_loop ext self nbs is vari ampl = Inl e \<Longrightarrow> e \<noteq> UnsupportedCaseError"
proof (induction "is" arbitrary: vari ampl)
  case Nil
  then show ?case by simp
next
  case (Cons i "is")
  then show ?case
    by (auto simp: item_def assign_row_def split: sum.splits if_splits list.splits
             dest!: call_cases)
qed

lemma stability_guard:
  "(fst (compute_features_stability ext self sel) = Some UnsupportedCaseError \<longleftrightarrow>
      u_case self = ''classification'' \<and> (\<exists>cs. u_classes self = Some cs \<and> 2 < length cs))"
proof (cases "multi_class self")
  case (Inl e)
  then have "e = TypeError" by (auto simp: multi_class_def split: if_splits option.splits)
  with Inl multi_class_True[of self] show ?thesis
    by (simp add: compute_features_stability_def)
next
  case (Inr b)
  show ?thesis
  proof (cases b)
    case True
    with Inr multi_class_True[of self] show ?thesis
      by (simp add: compute_features_stability_def)
  next
    case False
    with Inr multi_class_True[of self] show ?thesis
      by (auto simp: compute_features_stability_def item_def Let_def
               split: sum.splits if_splits prod.splits
               dest!: call_cases stability_loop_errors)
  qed
qed

lemma compacity_guard:
  "(fst (compute_features_compacity ext self sel d n) = Some UnsupportedCaseError \<longleftrightarrow>
      u_case self = ''classification'' \<and> (\<exists>cs. u_classes self = Some cs \<and> 2 < length cs))"
proof (cases "multi_class self")
  case (Inl e)
  then have "e = TypeError" by (auto simp: multi_class_def split: if_splits option.splits)
  with Inl multi_class_True[of self] show ?thesis
    by (simp add: compute_features_compacity_def)
next
  case (Inr b)
  show ?thesis
  proof (cases b)
    case True
    with Inr multi_class_True[of self] show ?thesis
      by (simp add: compute_features_compacity_def)
  next
    case False
    with Inr multi_class_True[of self] show ?thesis
      by (auto simp: compute_features_compacity_def Let_def
               split: sum.splits dest!: call_cases)
  qed
qed

text \<open>
  Claim C2. On a classification with strictly more than two classes,
  \<^verbatim>\<open>compute_features_stability\<close> and \<^verbatim>\<open>compute_features_compacity\<close> raise the
  unsupported-case error and leave the explainer as it was; in every other case
  (a regression, a classification with at most two classes) neither of them raises
  this error.
\<close>

theorem unsupported_case_rejected:
  "(u_case self = ''classification'' \<and> (\<exists>cs. u_classes self = Some cs \<and> 2 < length cs) \<longrightarrow>
      compute_features_stability ext self sel = (Some UnsupportedCaseError, self) \<and>
      compute_features_compacity ext self sel d n = (Some UnsupportedCaseError, self))
   \<and> (\<not> (u_case self = ''classification'' \<and> (\<exists>cs. u_classes self = Some cs \<and> 2 < length cs)) \<longrightarrow>
      fst (compute_features_stability ext self sel) \<noteq> Some UnsupportedCaseError \<and>
      fst (compute_features_compacity ext self sel d n) \<noteq> Some UnsupportedCaseError)"
proof (intro conjI impI)
  assume m: "u_case self = ''classification'' \<and> (\<exists>cs. u_classes self = Some cs \<and> 2 < length cs)"
  then have "multi_class self = Inr True" by (simp add: multi_class_True)
  then show "compute_features_stability ext self sel = (Some UnsupportedCaseError, self)"
    and "compute_features_compacity ext self sel d n = (Some UnsupportedCaseError, self)"
    by (simp_all add: compute_features_stability_def compute_features_compacity_def)
next
  assume "\<not> (u_case self = ''classification'' \<and> (\<exists>cs. u_classes self = Some cs \<and> 2 < length cs))"
  then show "fst (compute_features_stability ext self sel) \<noteq> Some UnsupportedCaseError"
    and "fst (compute_features_compacity ext self sel d n) \<noteq> Some UnsupportedCaseError"
    by (simp_all add: stability_guard compacity_guard)
qed

theorem unsupported_case_rejected_witness:
  "compute_features_stability ext0 xpl_multi [0, 1] = (Some UnsupportedCaseError, xpl_multi)
   \<and> compute_features_compacity ext0 xpl_multi [0, 1] (9/10) 2
       = (Some UnsupportedCaseError, xpl_multi)
   \<and> fst (compute_features_stability ext0 xpl0 [0, 1]) \<noteq> Some UnsupportedCaseError
   \<and> fst (compute_features_compacity ext0 xpl0 [0, 1] (9/10) 2) \<noteq> Some UnsupportedCaseError"
  using unsupported_case_rejected [of xpl_multi ext0 "[0, 1]" "9/10" 2]
        unsupported_case_rejected [of xpl0 ext0 "[0, 1]" "9/10" 2]
  by (simp add: xpl_multi_def xpl0_def)

subsection \<open>Stability and compacity\<close>

lemma has_rows_zeros: "has_rows n f (zeros n f)"
  by (simp add: has_rows_def zeros_def list_all_iff)

lemma has_rows_update:
  assumes "has_rows n f a" "length w = f"
  shows "has_rows n f (a[i := w])"
  using assms set_update_subset_insert[of a i w]
  by (auto simp: has_rows_def list_all_iff)

lemma assign_row_has_rows:
  assumes "assign_row a i v = Inr a'" "has_rows n f a"
  shows "has_rows n f a'"
proof -
  from assms(1) have i: "i < length a" by (auto simp: assign_row_def split: if_splits)
  with assms(2) have f: "length (a ! i) = f" by (simp add: has_rows_def list_all_length)
  from assms(1) i obtain w where "a' = a[i := w]" "length w = length (a ! i)"
    by (auto simp: assign_row_def split: if_splits list.splits)
  with f assms(2) show ?thesis by (simp add: has_rows_update)
qed

lemma stability_loop_has_rows:
  "stability_loop ext self nbs is vari ampl = Inr (vari', ampl') \<Longrightarrow>
   has_rows n f vari \<Longrightarrow> has_rows n f ampl \<Longrightarrow> has_rows n f vari' \<and> has_rows n f ampl'"
proof (induction "is" arbitrary: vari ampl)
  case Nil
  then show ?case by simp
next
  case (Cons i "is")
  from Cons.prems(1) obtain nb ns v a v1 a1 where
    "assign_row vari i v = Inr v1" "assign_row ampl i a = Inr a1"
    "stability_loop ext self nbs is v1 a1 = Inr (vari', ampl')"
    by (auto split: sum.splits prod.splits)
  with Cons.IH[of v1 a1] Cons.prems(2,3) show ?case
    by (auto dest: assign_row_has_rows)
qed

text \<open>
  Claim C5. When \<^verbatim>\<open>compute_features_stability\<close> returns on a selection of \<open>n\<close>
  instances with \<open>n\<close> other than one (in particular \<open>n > 1\<close>), \<^verbatim>\<open>features_stability\<close>
  holds the arrays \<^verbatim>\<open>amplitude\<close> and \<^verbatim>\<open>variability\<close>, each of shape \<open>(n, f)\<close> for the
  \<open>f\<close> columns of \<^verbatim>\<open>x_pred\<close>, and \<^verbatim>\<open>local_neighbors\<close> is untouched. On a selection
  of exactly one instance, \<^verbatim>\<open>local_neighbors\<close> holds under \<^verbatim>\<open>norm_shap\<close> the normalised
  contributions that \<^verbatim>\<open>shap_neighbors\<close> returns for the first neighbourhood, and
  \<^verbatim>\<open>features_stability\<close> is untouched: no amplitude or variability is produced.
\<close>

theorem stability_result_shapes:
  assumes "compute_features_stability ext self sel = (None, self')"
  shows "(length sel \<noteq> 1 \<longrightarrow>
            local_neighbors self' = local_neighbors self \<and>
            (\<exists>st. features_stability self' = Some st
               \<and> has_rows (length sel) (length (df_columns (x_pred self))) (amplitude st)
               \<and> has_rows (length sel) (length (df_columns (x_pred self))) (variability st)))
       \<and> (length sel = 1 \<longrightarrow>
            features_stability self' = features_stability self \<and>
            (\<exists>nbs nb norm_shap v a.
               call (ext_find_neighbors ext sel (x_init self) (model self) (u_case self)) = Inr nbs
               \<and> item nbs 0 = Inr nb
               \<and> call (ext_shap_neighbors ext nb (x_init self) (contributions self))
                   = Inr (norm_shap, v, a)
               \<and> local_neighbors self' = Some norm_shap))"
proof (rule conjI; rule impI)
  assume n: "length sel \<noteq> 1"
  with assms obtain nbs v' a' where
    loop: "stability_loop ext self nbs [0 ..< length sel]
             (zeros (length sel) (length (df_columns (x_pred self))))
             (zeros (length sel) (length (df_columns (x_pred self)))) = Inr (v', a')"
    and self': "self' = self\<lparr>features_stability := Some \<lparr>variability = v', amplitude = a'\<rparr>\<rparr>"
    by (auto simp: compute_features_stability_def Let_def split: sum.splits bool.splits prod.splits)
  from stability_loop_has_rows[OF loop has_rows_zeros has_rows_zeros] self'
  show "local_neighbors self' = local_neighbors self \<and>
            (\<exists>st. features_stability self' = Some st
               \<and> has_rows (length sel) (length (df_columns (x_pred self))) (amplitude st)
               \<and> has_rows (length sel) (length (df_columns (x_pred self))) (variability st))"
    by simp
next
  assume n: "length sel = 1"
  with assms show "features_stability self' = features_stability self \<and>
            (\<exists>nbs nb norm_shap v a.
               call (ext_find_neighbors ext sel (x_init self) (model self) (u_case self)) = Inr nbs
               \<and> item nbs 0 = Inr nb
               \<and> call (ext_shap_neighbors ext nb (x_init self) (contributions self))
                   = Inr (norm_shap, v, a)
               \<and> local_neighbors self' = Some norm_shap)"
    by (auto simp: compute_features_stability_def Let_def split: sum.splits bool.splits prod.splits)
qed


lemma clip_unit_entry:
  "minimum (maximum x (Finite 0)) (Finite 1)
     = (case x of
          Finite r \<Rightarrow> Finite (if 1 < r then 1 else if r < 0 then 0 else r)
        | PosInf \<Rightarrow> Finite 1
        | NegInf \<Rightarrow> Finite 0
        | NaN \<Rightarrow> NaN)"
  by (cases x) (simp_all add: minimum_def maximum_def)

lemma clip_unit_in_unit:
  "x \<noteq> NaN \<Longrightarrow> in_unit (minimum (maximum x (Finite 0)) (Finite 1))"
  by (cases x) (simp_all add: clip_unit_entry)

text \<open>
  Claim C6, as amended. When \<^verbatim>\<open>compute_features_compacity\<close> returns, the array
  stored as \<^verbatim>\<open>distance_reached\<close> holds, entry by entry, the distance that
  \<^verbatim>\<open>get_distance\<close> returned with 1 in place of any value above 1 (also of an
  infinite one) and 0 in place of any value below 0. Every entry whose distance
  is not NaN lies in the closed interval from 0 to 1; a distance that is NaN is
  stored as NaN.
\<close>

theorem distance_reached_clamped:
  assumes "compute_features_compacity ext self sel d n = (None, self')"
  shows "\<exists>c raw. features_compacity self' = Some c
           \<and> call (ext_get_distance ext sel (contributions self) (u_case self) n) = Inr raw
           \<and> length (distance_reached c) = length raw
           \<and> (\<forall>i < length raw. distance_reached c ! i
                  = (case raw ! i of
                       Finite r \<Rightarrow> Finite (if 1 < r then 1 else if r < 0 then 0 else r)
                     | PosInf \<Rightarrow> Finite 1
                     | NegInf \<Rightarrow> Finite 0
                     | NaN \<Rightarrow> NaN))
           \<and> (\<forall>i < length raw. raw ! i \<noteq> NaN \<longrightarrow> in_unit (distance_reached c ! i))
           \<and> (\<forall>i < length raw. raw ! i = NaN \<longrightarrow> distance_reached c ! i = NaN)"
proof -
  from assms obtain needed raw where
    raw: "call (ext_get_distance ext sel (contributions self) (u_case self) n) = Inr raw"
    and s: "self' = self\<lparr>features_compacity :=
              Some \<lparr>features_needed = needed,
                    distance_reached = clip raw (Finite 0) (Finite 1)\<rparr>\<rparr>"
    by (auto simp: compute_features_compacity_def Let_def split: sum.splits bool.splits)
  have "clip raw (Finite 0) (Finite 1) ! i
          = (case raw ! i of
               Finite r \<Rightarrow> Finite (if 1 < r then 1 else if r < 0 then 0 else r)
             | PosInf \<Rightarrow> Finite 1
             | NegInf \<Rightarrow> Finite 0
             | NaN \<Rightarrow> NaN)" if "i < length raw" for i
    using that by (simp add: clip_def clip_unit_entry)
  moreover have "in_unit (clip raw (Finite 0) (Finite 1) ! i)"
    if "i < length raw" "raw ! i \<noteq> NaN" for i
    using that by (simp add: clip_def clip_unit_in_unit)
  moreover have "clip raw (Finite 0) (Finite 1) ! i = NaN"
    if "i < length raw" "raw ! i = NaN" for i
    using that by (simp add: clip_def clip_unit_entry)
  moreover have "length (clip raw (Finite 0) (Finite 1)) = length raw"
    by (simp add: clip_def)
  ultimately show ?thesis using raw s by simp
qed

lemma stability_run_two:
  "compute_features_stability ext0 xpl0 [0, 1] =
     (None, xpl0\<lparr>features_stability :=
                    Some \<lparr>variability = [[1/10, 2/10, 3/10], [1/10, 2/10, 3/10]],
                          amplitude = [[3/4, 11/20, 17/40], [3/4, 11/20, 17/40]]\<rparr>\<rparr>)"
  by (simp add: compute_features_stability_def multi_class_def xpl0_def ext0_def call_def
        item_def assign_row_def zeros_def frame0_def upt_rec numeral_2_eq_2)

lemma stability_run_one:
  "compute_features_stability ext0 xpl0 [1] =
     (None, xpl0\<lparr>local_neighbors := Some [[1, 1/10, -3/5], [1/2, -1, 1/4]]\<rparr>)"
  by (simp add: compute_features_stability_def multi_class_def xpl0_def ext0_def call_def
        item_def)

theorem stability_result_shapes_witness:
  "(\<exists>st. features_stability (snd (compute_features_stability ext0 xpl0 [0, 1])) = Some st
        \<and> has_rows 2 3 (amplitude st) \<and> has_rows 2 3 (variability st))
   \<and> local_neighbors (snd (compute_features_stability ext0 xpl0 [1]))
       = Some [[1, 1/10, -3/5], [1/2, -1, 1/4]]
   \<and> features_stability (snd (compute_features_stability ext0 xpl0 [1])) = None"
  using stability_result_shapes [OF stability_run_two] stability_result_shapes [OF stability_run_one]
  unfolding stability_run_two stability_run_one
  by (simp add: xpl0_def frame0_def has_rows_def)

lemma compacity_run:
  "compute_features_compacity ext0 xpl0 [0, 1] (9/10) 2 =
     (None, xpl0\<lparr>features_compacity :=
                    Some \<lparr>features_needed = [2, 2],
                          distance_reached = [Finite 1, Finite 1]\<rparr>\<rparr>)"
  by (simp add: compute_features_compacity_def multi_class_def xpl0_def ext0_def call_def
        clip_def minimum_def maximum_def)

lemma compacity_run_nan:
  "compute_features_compacity ext_nan xpl0 [0, 1] (9/10) 2 =
     (None, xpl0\<lparr>features_compacity :=
                    Some \<lparr>features_needed = [2, 2],
                          distance_reached = [NaN, Finite 1]\<rparr>\<rparr>)"
  by (simp add: compute_features_compacity_def multi_class_def xpl0_def ext_nan_def ext0_def
        call_def clip_def minimum_def maximum_def)

text \<open>
  Claim C6, as stated, fails: when \<^verbatim>\<open>get_distance\<close> has NaN for an instance, the
  call returns and the entry of that instance in \<^verbatim>\<open>distance_reached\<close> is NaN,
  which is not in the interval.
\<close>

theorem distance_reached_nan_counterexample:
  "compute_features_compacity ext_nan xpl0 [0, 1] (9/10) 2 =
     (None, xpl0\<lparr>features_compacity :=
                    Some \<lparr>features_needed = [2, 2],
                          distance_reached = [NaN, Finite 1]\<rparr>\<rparr>)
   \<and> \<not> in_unit ([NaN, Finite 1] ! 0)"
  by (simp add: compute_features_compacity_def multi_class_def xpl0_def ext_nan_def ext0_def
        call_def clip_def minimum_def maximum_def)

theorem distance_reached_clamped_witness:
  "compute_features_compacity ext0 xpl0 [0, 1] (9/10) 2
     = (None, snd (compute_features_compacity ext0 xpl0 [0, 1] (9/10) 2))
   \<and> (\<exists>c. features_compacity (snd (compute_features_compacity ext0 xpl0 [0, 1] (9/10) 2)) = Some c
         \<and> distance_reached c = [Finite 1, Finite 1]
         \<and> in_unit (distance_reached c ! 0) \<and> in_unit (distance_reached c ! 1))
   \<and> (\<exists>c. features_compacity (snd (compute_features_compacity ext_nan xpl0 [0, 1] (9/10) 2)) = Some c
         \<and> distance_reached c = [NaN, Finite 1]
         \<and> in_unit (distance_reached c ! 1))"
  using distance_reached_clamped [OF compacity_run] distance_reached_clamped [OF compacity_run_nan]
  unfolding compacity_run compacity_run_nan
  by (simp add: ext0_def ext_nan_def call_def xpl0_def)

subsection \<open>The mask algebra\<close>

lemma sequence_map_Inr_D:
  "sequence (map f xs) = Inr ys \<Longrightarrow> list_all2 (\<lambda>x y. f x = Inr y) xs ys"
proof (induction xs arbitrary: ys)
  case Nil
  then show ?case by simp
next
  case (Cons x xs)
  then show ?case
    by (cases "f x"; cases "sequence (map f xs)") auto
qed

lemma sequence_map_Inr_I:
  "list_all2 (\<lambda>x y. f x = Inr y) xs ys \<Longrightarrow> sequence (map f xs) = Inr ys"
  by (induction xs ys rule: list_all2_induct) auto


lemma shape_rows:
  assumes "shape b = shape a"
  shows "length (df_values b) = length (df_values a)"
    and "i < length (df_values a) \<Longrightarrow> length (df_values b ! i) = length (df_values a ! i)"
proof -
  from assms have eq: "map length (df_values b) = map length (df_values a)"
    by (simp add: shape_def)
  then show len: "length (df_values b) = length (df_values a)"
    by (rule map_eq_imp_length_eq)
  assume i: "i < length (df_values a)"
  have "map length (df_values b) ! i = map length (df_values a) ! i"
    using eq by simp
  with i len show "length (df_values b ! i) = length (df_values a ! i)"
    by simp
qed

lemma shape_and_frame:
  assumes "shape b = shape a"
  shows "shape (and_frame a b) = shape a"
proof -
  have "map length (map2 (map2 (\<and>)) (df_values a) (df_values b)) = map length (df_values a)"
    using shape_rows[OF assms] by (intro nth_equalityI) simp_all
  then show ?thesis by (simp add: shape_def and_frame_def)
qed

lemma cell_and_frame:
  assumes "shape b = shape a" "i < length (df_values a)" "j < length (df_values a ! i)"
  shows "df_values (and_frame a b) ! i ! j = (df_values a ! i ! j \<and> df_values b ! i ! j)"
  using shape_rows[OF assms(1)] assms(2,3) by (simp add: and_frame_def)

lemma combine_masks_Inr:
  "combine_masks (m # ms) = Inr r \<Longrightarrow>
     shape r = shape m \<and> df_index r = df_index m \<and> df_columns r = df_columns m \<and>
     list_all (\<lambda>m'. shape m' = shape m) ms \<and>
     (\<forall>i j. i < length (df_values m) \<longrightarrow> j < length (df_values m ! i) \<longrightarrow>
        df_values r ! i ! j = (df_values m ! i ! j \<and> list_all (\<lambda>m'. df_values m' ! i ! j) ms))"
proof (induction ms arbitrary: m)
  case Nil
  then show ?case by simp
next
  case (Cons m' ms)
  from Cons.prems have sh: "shape m' = shape m"
    and c: "combine_masks (and_frame m m' # ms) = Inr r"
    by (simp_all split: if_splits)
  note ih = Cons.IH[OF c]
  have sa: "shape (and_frame m m') = shape m" using sh by (rule shape_and_frame)
  have cols: "df_index (and_frame m m') = df_index m" "df_columns (and_frame m m') = df_columns m"
    by (simp_all add: and_frame_def)
  have cells: "df_values r ! i ! j
      = (df_values m ! i ! j \<and> list_all (\<lambda>m'. df_values m' ! i ! j) (m' # ms))"
    if "i < length (df_values m)" "j < length (df_values m ! i)" for i j
  proof -
    from that shape_rows[OF sa] have
      "i < length (df_values (and_frame m m'))" "j < length (df_values (and_frame m m') ! i)"
      by simp_all
    with ih have "df_values r ! i ! j
       = (df_values (and_frame m m') ! i ! j \<and> list_all (\<lambda>m'. df_values m' ! i ! j) ms)"
      by blast
    with cell_and_frame[OF sh that] show ?thesis by simp
  qed
  from ih sa sh cols have "shape r = shape m" "df_index r = df_index m"
    "df_columns r = df_columns m" "list_all (\<lambda>x. shape x = shape m) (m' # ms)"
    by simp_all
  with cells show ?case by blast
qed

lemma singles_map: "singles (map Single fs) = Some fs"
  by (induction fs) simp_all

lemma singles_SomeD: "singles xs = Some fs \<Longrightarrow> xs = map Single fs"
proof (induction xs arbitrary: fs)
  case Nil
  then show ?case by simp
next
  case (Cons x xs)
  then show ?case by (cases x) (auto split: option.splits)
qed

lemma multis_map: "multis (map Multi fss) = Some fss"
  by (induction fss) simp_all

lemma multis_SomeD: "multis xs = Some fss \<Longrightarrow> xs = map Multi fss"
proof (induction xs arbitrary: fss)
  case Nil
  then show ?case by simp
next
  case (Cons x xs)
  then show ?case by (cases x) (auto split: option.splits)
qed

lemma singles_Multi: "singles (map Multi fss) = None \<longleftrightarrow> fss \<noteq> []"
  by (cases fss) auto

lemma shape_applymap: "shape (applymap f df) = shape df"
  by (simp add: shape_def applymap_def comp_def)

lemma obj_shape_applymap: "obj_shape (map_obj (applymap f) x) = obj_shape x"
  by (cases x) (simp_all add: obj_shape_def shape_applymap obj.map_comp comp_def)

lemma frames_of_map_obj: "frames_of (map_obj f x) = map f (frames_of x)"
  by (cases x) simp_all

lemma obj_shape_frames: "obj_shape a = obj_shape b \<Longrightarrow> map shape (frames_of a) = map shape (frames_of b)"
  by (cases a; cases b) (simp_all add: obj_shape_def)

lemma in_table_shape:
  assumes "obj_shape a = obj_shape b"
  shows "in_table a k i j = in_table b k i j"
proof -
  from assms have eq: "map shape (frames_of a) = map shape (frames_of b)"
    by (rule obj_shape_frames)
  then have len: "length (frames_of a) = length (frames_of b)"
    by (rule map_eq_imp_length_eq)
  show ?thesis
  proof (cases "k < length (frames_of b)")
    case False
    with len show ?thesis by (simp add: in_table_def)
  next
    case True
    with eq len have "map shape (frames_of a) ! k = map shape (frames_of b) ! k" by simp
    with True len have sh: "shape (frames_of a ! k) = shape (frames_of b ! k)" by simp
    from shape_rows[OF sh] True len show ?thesis
      by (auto simp: in_table_def)
  qed
qed

lemma cell_applymap:
  "in_table x k i j \<Longrightarrow> cell_at (map_obj (applymap f) x) k i j = f (cell_at x k i j)"
  by (simp add: in_table_def cell_at_def frames_of_map_obj applymap_def)

lemma st_combine_masks_Single:
  assumes "st_combine_masks (Single f0 # ms) = Inr r"
  obtains fs r0 where "ms = map Single fs" "combine_masks (f0 # fs) = Inr r0" "r = Single r0"
proof -
  from assms have "singles ms \<noteq> None"
    by (auto simp: st_combine_masks_def split: option.splits)
  then obtain fs where fs: "singles ms = Some fs" by auto
  with assms obtain r0 where "combine_masks (f0 # fs) = Inr r0" "r = Single r0"
    by (auto simp: st_combine_masks_def split: sum.splits)
  with singles_SomeD[OF fs] that show thesis by blast
qed

lemma st_combine_masks_Multi:
  assumes "st_combine_masks (Multi fs0 # ms) = Inr r"
  obtains fss rs where "ms = map Multi fss" "list_all (\<lambda>fs. length fs = length fs0) fss"
    "length rs = length fs0" "r = Multi rs"
    "\<And>k. k < length fs0 \<Longrightarrow> combine_masks (fs0 ! k # map (\<lambda>fs. fs ! k) fss) = Inr (rs ! k)"
proof -
  from assms have "multis ms \<noteq> None"
    by (auto simp: st_combine_masks_def split: option.splits)
  then obtain fss where fss: "multis ms = Some fss" by auto
  with assms obtain rs where len: "list_all (\<lambda>fs. length fs = length fs0) fss"
    and seq: "sequence (map (\<lambda>k. combine_masks (map (\<lambda>fs. fs ! k) (fs0 # fss)))
                 [0 ..< length fs0]) = Inr rs"
    and r: "r = Multi rs"
    by (auto simp: st_combine_masks_def split: sum.splits if_splits)
  from sequence_map_Inr_D[OF seq]
  have all2: "list_all2 (\<lambda>k r. combine_masks (map (\<lambda>fs. fs ! k) (fs0 # fss)) = Inr r)
                [0 ..< length fs0] rs" .
  then have l: "length rs = length fs0" by (auto dest: list_all2_lengthD)
  have "combine_masks (fs0 ! k # map (\<lambda>fs. fs ! k) fss) = Inr (rs ! k)" if "k < length fs0" for k
    using list_all2_nthD[OF all2, of k] that by simp
  with multis_SomeD[OF fss] len l r that show thesis by blast
qed

lemma st_combine_masks_Inr:
  assumes "st_combine_masks (m0 # ms) = Inr r"
  shows "obj_shape r = obj_shape m0"
    and "list_all (\<lambda>x. obj_shape x = obj_shape m0) ms"
    and "in_table m0 k i j \<Longrightarrow>
           cell_at r k i j = (cell_at m0 k i j \<and> list_all (\<lambda>x. cell_at x k i j) ms)"
proof -
  have "obj_shape r = obj_shape m0 \<and> list_all (\<lambda>x. obj_shape x = obj_shape m0) ms \<and>
        (in_table m0 k i j \<longrightarrow>
           cell_at r k i j = (cell_at m0 k i j \<and> list_all (\<lambda>x. cell_at x k i j) ms))"
  proof (cases m0)
    case (Single f0)
    with assms obtain fs r0 where ms: "ms = map Single fs"
      and c: "combine_masks (f0 # fs) = Inr r0" and r: "r = Single r0"
      by (auto elim: st_combine_masks_Single)
    note cm = combine_masks_Inr[OF c]
    from cm have "obj_shape r = obj_shape m0" by (simp add: r Single obj_shape_def)
    moreover from cm have "list_all (\<lambda>x. obj_shape x = obj_shape m0) ms"
      by (simp add: ms Single obj_shape_def list_all_iff)
    moreover have "cell_at r k i j = (cell_at m0 k i j \<and> list_all (\<lambda>x. cell_at x k i j) ms)"
      if "in_table m0 k i j"
    proof -
      from that have "k = 0" "i < length (df_values f0)" "j < length (df_values f0 ! i)"
        by (auto simp: in_table_def Single)
      with cm show ?thesis
        by (simp add: cell_at_def r Single ms list_all_iff)
    qed
    ultimately show ?thesis by blast
  next
    case (Multi fs0)
    with assms obtain fss rs where ms: "ms = map Multi fss"
      and len: "list_all (\<lambda>fs. length fs = length fs0) fss"
      and l: "length rs = length fs0" and r: "r = Multi rs"
      and c: "\<And>k. k < length fs0 \<Longrightarrow>
                combine_masks (fs0 ! k # map (\<lambda>fs. fs ! k) fss) = Inr (rs ! k)"
      by (auto elim: st_combine_masks_Multi)
    have "map shape rs = map shape fs0"
      using l combine_masks_Inr[OF c] by (intro nth_equalityI) simp_all
    then have "obj_shape r = obj_shape m0" by (simp add: r Multi obj_shape_def)
    moreover have "list_all (\<lambda>x. obj_shape x = obj_shape m0) ms"
    proof -
      have "map shape fs = map shape fs0" if "fs \<in> set fss" for fs
      proof (intro nth_equalityI)
        from that len show "length (map shape fs) = length (map shape fs0)"
          by (simp add: list_all_iff)
      next
        fix n assume "n < length (map shape fs)"
        with that len have n: "n < length fs0" "n < length fs" by (simp_all add: list_all_iff)
        from combine_masks_Inr[OF c[OF n(1)]] that
        have "shape (fs ! n) = shape (fs0 ! n)" by (simp add: list_all_iff)
        with n show "map shape fs ! n = map shape fs0 ! n" by simp
      qed
      then show ?thesis by (simp add: ms Multi obj_shape_def list_all_iff)
    qed
    moreover have "cell_at r k i j = (cell_at m0 k i j \<and> list_all (\<lambda>x. cell_at x k i j) ms)"
      if "in_table m0 k i j"
    proof -
      from that have k: "k < length fs0" and "i < length (df_values (fs0 ! k))"
        "j < length (df_values (fs0 ! k) ! i)"
        by (simp_all add: in_table_def Multi)
      with combine_masks_Inr[OF c[OF k]] show ?thesis
        by (simp add: cell_at_def r Multi ms list_all_iff)
    qed
    ultimately show ?thesis by blast
  qed
  then show "obj_shape r = obj_shape m0"
    and "list_all (\<lambda>x. obj_shape x = obj_shape m0) ms"
    and "in_table m0 k i j \<Longrightarrow>
           cell_at r k i j = (cell_at m0 k i j \<and> list_all (\<lambda>x. cell_at x k i j) ms)"
    by blast+
qed

lemma st_init_mask_map: "st_init_mask c v = map_obj (applymap (\<lambda>_. v)) c"
  by (simp add: st_init_mask_def init_mask_def[abs_def])

lemma st_hide_contributions_map:
  "st_hide_contributions vd fl = map_obj (applymap (\<lambda>v. v \<notin> set fl)) vd"
  by (simp add: st_hide_contributions_def hide_contributions_def[abs_def])

lemma st_sign_contributions_map:
  "st_sign_contributions c p = map_obj (applymap (\<lambda>c. if p then \<not> c \<le> 0 else \<not> c \<ge> 0)) c"
  by (simp add: st_sign_contributions_def sign_contributions_def[abs_def])

lemma sequence_all_Inr: "sequence (map (\<lambda>x. Inr (f x)) xs) = Inr (map f xs)"
  by (induction xs) simp_all

lemma sequence_all_Inl: "xs \<noteq> [] \<Longrightarrow> sequence (map (\<lambda>x. Inl e) xs) = Inl e"
  by (cases xs) simp_all

lemma st_cap_contributions_ok:
  "\<not> t < 0 \<Longrightarrow>
     st_cap_contributions c t = Inr (map_obj (applymap (\<lambda>x. \<not> \<bar>x\<bar> < t)) c)"
  by (cases c) (simp_all add: cap_contributions_def sequence_all_Inr)

lemma st_cap_contributions_negative:
  "t < 0 \<Longrightarrow> frames_of c \<noteq> [] \<Longrightarrow> st_cap_contributions c t = Inl ConfigurationError"
  by (cases c) (simp_all add: cap_contributions_def sequence_all_Inl)

lemma st_cap_contributions_InrD:
  assumes "st_cap_contributions c t = Inr m"
  shows "m = map_obj (applymap (\<lambda>x. \<not> \<bar>x\<bar> < t)) c"
proof (cases "t < 0")
  case False
  with assms show ?thesis by (simp add: st_cap_contributions_ok)
next
  case True
  have "frames_of c = []"
  proof (rule ccontr)
    assume "frames_of c \<noteq> []"
    from st_cap_contributions_negative[OF True this] assms show False by simp
  qed
  with assms show ?thesis by (cases c) simp_all
qed








lemma st_compute_masked_contributions_ok:
  assumes "obj_shape m = obj_shape c"
  shows "\<exists>mc. st_compute_masked_contributions c m = Inr mc"
proof (cases c)
  case (Single f)
  with assms show ?thesis by (cases m) (simp_all add: obj_shape_def)
next
  case (Multi fs)
  with assms show ?thesis
    by (cases m) (auto simp: obj_shape_def dest: map_eq_imp_length_eq)
qed

subsection \<open>\<^verbatim>\<open>filter\<close>\<close>

lemma cell_init:
  "in_table c k i j \<Longrightarrow> cell_at (st_init_mask c v) k i j = v"
  by (simp add: st_init_mask_map cell_applymap)

lemma obj_shape_init: "obj_shape (st_init_mask c v) = obj_shape c"
  by (simp add: st_init_mask_map obj_shape_applymap)

lemma cell_hide:
  assumes "obj_shape (st_hide_contributions vd fl) = obj_shape c" "in_table c k i j"
  shows "cell_at (st_hide_contributions vd fl) k i j = (cell_at vd k i j \<notin> set fl)"
proof -
  from assms(1) have "obj_shape vd = obj_shape c"
    by (simp add: st_hide_contributions_map obj_shape_applymap)
  from in_table_shape[OF this] assms(2) have "in_table vd k i j" by simp
  then show ?thesis by (simp add: st_hide_contributions_map cell_applymap)
qed

lemma cell_sign:
  "in_table c k i j \<Longrightarrow>
     cell_at (st_sign_contributions c p) k i j
       = (if p then \<not> cell_at c k i j \<le> 0 else \<not> cell_at c k i j \<ge> 0)"
  by (simp add: st_sign_contributions_map cell_applymap)

lemma cell_cap:
  "st_cap_contributions c t = Inr m \<Longrightarrow> in_table c k i j \<Longrightarrow>
     cell_at m k i j = (\<not> \<bar>cell_at c k i j\<bar> < t)"
  using st_cap_contributions_InrD[of c t m] by (simp add: cell_applymap)


lemma criteria_masks_normal:
  "criteria_masks ext self dat fth th pos g =
     (case (case fth of
              None \<Rightarrow> Inr []
            | Some f \<Rightarrow>
                if f = [] then Inr []
                else (case check_features_name ext self f g of
                        Inl e \<Rightarrow> Inl e
                      | Inr fl \<Rightarrow> Inr [st_hide_contributions (var_dict dat) fl])) of
        Inl e \<Rightarrow> Inl e
      | Inr hides \<Rightarrow>
     (case (case th of
              None \<Rightarrow> Inr []
            | Some t \<Rightarrow>
                if t = 0 then Inr []
                else (case st_cap_contributions (contrib_sorted dat) t of
                        Inl e \<Rightarrow> Inl e | Inr m \<Rightarrow> Inr [m])) of
        Inl e \<Rightarrow> Inl e
      | Inr caps \<Rightarrow>
          Inr (st_init_mask (contrib_sorted dat) True # hides @ caps
               @ (case pos of
                    None \<Rightarrow> []
                  | Some p \<Rightarrow> [st_sign_contributions (contrib_sorted dat) p]))))"
  unfolding criteria_masks_def Let_def
  by (simp split: option.split sum.split)

lemma hide_part:
  assumes "(case fth of
              None \<Rightarrow> Inr []
            | Some f \<Rightarrow>
                if f = [] then Inr []
                else (case check_features_name ext self f
                             (dg \<noteq> Some False \<and> features_groups self \<noteq> None) of
                        Inl e \<Rightarrow> Inl e
                      | Inr fl \<Rightarrow> Inr [st_hide_contributions vd fl])) = Inr hides"
  obtains fl where "hidden_features ext self fth dg = Inr fl"
    "\<And>k i j. list_all (\<lambda>x. obj_shape x = obj_shape c) hides \<Longrightarrow> in_table c k i j \<Longrightarrow>
       list_all (\<lambda>x. cell_at x k i j) hides = (cell_at vd k i j \<notin> set fl)"
proof (cases "fth = None \<or> fth = Some []")
  case True
  with assms have "hides = []" "hidden_features ext self fth dg = Inr []"
    by (auto simp: hidden_features_def)
  with that[of "[]"] show thesis by simp
next
  case False
  then obtain f where f: "fth = Some f" "f \<noteq> []" by auto
  with assms obtain fl where fl: "check_features_name ext self f
        (dg \<noteq> Some False \<and> features_groups self \<noteq> None) = Inr fl"
    and h: "hides = [st_hide_contributions vd fl]"
    by (auto split: sum.splits)
  from f fl have "hidden_features ext self fth dg = Inr fl"
    by (simp add: hidden_features_def)
  moreover have "list_all (\<lambda>x. cell_at x k i j) hides = (cell_at vd k i j \<notin> set fl)"
    if "list_all (\<lambda>x. obj_shape x = obj_shape c) hides" "in_table c k i j" for k i j
    using that cell_hide[of vd fl c k i j] by (simp add: h)
  ultimately show thesis by (rule that)
qed

lemma cap_part:
  assumes "(case th of
              None \<Rightarrow> Inr []
            | Some t \<Rightarrow>
                if t = 0 then Inr []
                else (case st_cap_contributions c t of
                        Inl e \<Rightarrow> Inl e | Inr m \<Rightarrow> Inr [m])) = Inr caps"
    and "in_table c k i j"
  shows "list_all (\<lambda>x. cell_at x k i j) caps
           = (case th of None \<Rightarrow> True | Some t \<Rightarrow> \<not> \<bar>cell_at c k i j\<bar> < t)"
proof (cases th)
  case None
  with assms show ?thesis by simp
next
  case (Some t)
  show ?thesis
  proof (cases "t = 0")
    case True
    with Some assms show ?thesis by simp
  next
    case False
    with Some assms(1) obtain m where "st_cap_contributions c t = Inr m" "caps = [m]"
      by (auto split: sum.splits)
    with cell_cap[OF this(1) assms(2)] Some show ?thesis by simp
  qed
qed

lemma sign_part:
  assumes "in_table c k i j"
  shows "list_all (\<lambda>x. cell_at x k i j)
           (case pos of None \<Rightarrow> [] | Some p \<Rightarrow> [st_sign_contributions c p])
         = (case pos of None \<Rightarrow> True
            | Some p \<Rightarrow> if p then \<not> cell_at c k i j \<le> 0 else \<not> cell_at c k i j \<ge> 0)"
  using assms by (cases pos) (simp_all add: cell_sign)

lemma criteria_cells:
  assumes "criteria_masks ext self dat fth th pos
             (dg \<noteq> Some False \<and> features_groups self \<noteq> None) = Inr masks"
  obtains fl rest where "hidden_features ext self fth dg = Inr fl"
    "masks = st_init_mask (contrib_sorted dat) True # rest"
    "\<And>k i j. list_all (\<lambda>x. obj_shape x = obj_shape (contrib_sorted dat)) rest \<Longrightarrow>
       in_table (contrib_sorted dat) k i j \<Longrightarrow>
       list_all (\<lambda>x. cell_at x k i j) rest
         = passes fl th pos (cell_at (var_dict dat) k i j) (cell_at (contrib_sorted dat) k i j)"
proof -
  define c where "c = contrib_sorted dat"
  define H where "H = (case fth of
              None \<Rightarrow> Inr []
            | Some f \<Rightarrow>
                if f = [] then Inr []
                else (case check_features_name ext self f
                             (dg \<noteq> Some False \<and> features_groups self \<noteq> None) of
                        Inl e \<Rightarrow> Inl e
                      | Inr fl \<Rightarrow> Inr [st_hide_contributions (var_dict dat) fl]))"
  define C where "C = (case th of
              None \<Rightarrow> Inr []
            | Some t \<Rightarrow>
                if t = 0 then Inr []
                else (case st_cap_contributions c t of
                        Inl e \<Rightarrow> Inl e | Inr m \<Rightarrow> Inr [m]))"
  define signs where
    "signs = (case pos of None \<Rightarrow> [] | Some p \<Rightarrow> [st_sign_contributions c p])"
  from assms have "(case H of Inl e \<Rightarrow> Inl e | Inr hides \<Rightarrow>
      (case C of Inl e \<Rightarrow> Inl e | Inr caps \<Rightarrow>
         Inr (st_init_mask c True # hides @ caps @ signs))) = Inr masks"
    unfolding criteria_masks_normal H_def C_def signs_def c_def .
  then obtain hides caps where H: "H = Inr hides" and C: "C = Inr caps"
    and masks: "masks = st_init_mask c True # hides @ caps @ signs"
    by (auto split: sum.splits)
  obtain fl where fl: "hidden_features ext self fth dg = Inr fl"
    and hc: "\<And>k i j. list_all (\<lambda>x. obj_shape x = obj_shape c) hides \<Longrightarrow> in_table c k i j \<Longrightarrow>
       list_all (\<lambda>x. cell_at x k i j) hides = (cell_at (var_dict dat) k i j \<notin> set fl)"
    using hide_part[where c = c, OF H[unfolded H_def]] by blast
  have "list_all (\<lambda>x. cell_at x k i j) (hides @ caps @ signs)
         = passes fl th pos (cell_at (var_dict dat) k i j) (cell_at c k i j)"
    if "list_all (\<lambda>x. obj_shape x = obj_shape c) (hides @ caps @ signs)" "in_table c k i j"
    for k i j
  proof -
    from that(1) have "list_all (\<lambda>x. obj_shape x = obj_shape c) hides" by simp
    from hc[OF this that(2)] cap_part[OF C[unfolded C_def] that(2)] sign_part[OF that(2), of pos]
    show ?thesis by (simp add: passes_def signs_def)
  qed
  with fl masks that show thesis unfolding c_def by blast
qed

lemma st_combine_masks_one: "st_combine_masks [x] = Inr x"
proof (cases x)
  case (Single f)
  then show ?thesis by (simp add: st_combine_masks_def)
next
  case (Multi fs)
  have "sequence (map (\<lambda>k. Inr (fs ! k)) [0 ..< length fs]) = Inr (map (\<lambda>k. fs ! k) [0 ..< length fs])"
    by (rule sequence_all_Inr)
  with Multi show ?thesis by (simp add: st_combine_masks_def map_nth)
qed


lemma filter_cases:
  obtains (no_data) "shown_data self dg = None"
      "\<And>mc. filter_xpl ext self fth th pos mc dg = (Some AttributeError, self)"
  | (criteria_error) dat e where "shown_data self dg = Some dat"
      "criteria_masks ext self dat fth th pos
         (dg \<noteq> Some False \<and> features_groups self \<noteq> None) = Inl e"
      "\<And>mc. filter_xpl ext self fth th pos mc dg = (Some e, self)"
  | (combine_error) dat masks e where "shown_data self dg = Some dat"
      "criteria_masks ext self dat fth th pos
         (dg \<noteq> Some False \<and> features_groups self \<noteq> None) = Inr masks"
      "st_combine_masks masks = Inl e"
      "\<And>mc. filter_xpl ext self fth th pos mc dg = (Some e, self)"
  | (combined) dat masks m where "shown_data self dg = Some dat"
      "criteria_masks ext self dat fth th pos
         (dg \<noteq> Some False \<and> features_groups self \<noteq> None) = Inr masks"
      "st_combine_masks masks = Inr m"
      "\<And>mc. filter_xpl ext self fth th pos mc dg = finish_filter self dat m fth th pos mc"
proof (cases "shown_data self dg")
  case None
  then have "filter_xpl ext self fth th pos mc dg = (Some AttributeError, self)" for mc
    by (simp add: filter_xpl_def shown_data_def)
  with None show thesis by (rule no_data)
next
  case (Some dat)
  then have d: "(if dg \<noteq> Some False \<and> features_groups self \<noteq> None then data_groups self
                 else Some (data self)) = Some dat"
    by (simp add: shown_data_def)
  show thesis
  proof (cases "criteria_masks ext self dat fth th pos
                  (dg \<noteq> Some False \<and> features_groups self \<noteq> None)")
    case (Inl e)
    then have "filter_xpl ext self fth th pos mc dg = (Some e, self)" for mc
      unfolding filter_xpl_def Let_def d by simp
    with Some Inl show thesis by (rule criteria_error)
  next
    case masks: (Inr masks)
    show thesis
    proof (cases "st_combine_masks masks")
      case (Inl e)
      with masks have "filter_xpl ext self fth th pos mc dg = (Some e, self)" for mc
        unfolding filter_xpl_def Let_def d by simp
      with Some masks Inl show thesis by (rule combine_error)
    next
      case (Inr m)
      with masks have "filter_xpl ext self fth th pos mc dg
                         = finish_filter self dat m fth th pos mc" for mc
        unfolding filter_xpl_def Let_def d by simp
      with Some masks Inr show thesis by (rule combined)
    qed
  qed
qed

lemma finish_filter_no_cutoff:
  assumes "obj_shape m = obj_shape (contrib_sorted dat)" "mc = None \<or> mc = Some 0"
  shows "\<exists>s. finish_filter self dat m fth th pos mc = (None, s) \<and> mask s = Some m"
proof -
  from st_compute_masked_contributions_ok[OF assms(1)] obtain x
    where "st_compute_masked_contributions (contrib_sorted dat) m = Inr x" by blast
  with assms(2) show ?thesis
    by (auto simp: finish_filter_def)
qed



lemma combined_shape_cells:
  assumes cm: "criteria_masks ext self dat fth th pos
                 (dg \<noteq> Some False \<and> features_groups self \<noteq> None) = Inr masks"
    and comb: "st_combine_masks masks = Inr m"
  obtains fl where "hidden_features ext self fth dg = Inr fl"
    "obj_shape m = obj_shape (contrib_sorted dat)"
    "\<And>k i j. in_table m k i j \<Longrightarrow>
       cell_at m k i j
         = passes fl th pos (cell_at (var_dict dat) k i j) (cell_at (contrib_sorted dat) k i j)"
proof -
  let ?c = "contrib_sorted dat"
  obtain fl rest where fl: "hidden_features ext self fth dg = Inr fl"
    and masks: "masks = st_init_mask ?c True # rest"
    and cells: "\<And>k i j. list_all (\<lambda>x. obj_shape x = obj_shape ?c) rest \<Longrightarrow>
       in_table ?c k i j \<Longrightarrow>
       list_all (\<lambda>x. cell_at x k i j) rest
         = passes fl th pos (cell_at (var_dict dat) k i j) (cell_at ?c k i j)"
    using criteria_cells[OF cm] by blast
  note sc = st_combine_masks_Inr[OF comb[unfolded masks]]
  from sc(1) have sh: "obj_shape m = obj_shape ?c" by (simp add: obj_shape_init)
  from sc(2) have shapes: "list_all (\<lambda>x. obj_shape x = obj_shape ?c) rest"
    by (simp add: obj_shape_init)
  have "cell_at m k i j = passes fl th pos (cell_at (var_dict dat) k i j) (cell_at ?c k i j)"
    if "in_table m k i j" for k i j
  proof -
    from that in_table_shape[OF sh] have ic: "in_table ?c k i j" by simp
    with in_table_shape[OF obj_shape_init, of ?c True k i j]
    have "in_table (st_init_mask ?c True) k i j" by simp
    from sc(3)[OF this] cells[OF shapes ic] cell_init[OF ic] show ?thesis by simp
  qed
  with fl sh that show thesis by blast
qed

text \<open>
  Claim C4. A criterion of \<^verbatim>\<open>filter\<close> that is not supplied imposes no constraint.
  When a call without \<^verbatim>\<open>max_contrib\<close> returns, the mask it stores has the shape of
  \<^verbatim>\<open>contrib_sorted\<close>, and each of its entries is the conjunction of the criteria
  supplied (feature not hidden, magnitude not below the threshold, sign as
  requested), a criterion left at \<^verbatim>\<open>None\<close> contributing nothing. A call with no
  criterion at all returns, on any explainer that has the data, with the all-true
  mask of the shape of \<^verbatim>\<open>contrib_sorted\<close>.
\<close>

theorem filter_criteria_conjunction:
  "(filter_xpl ext self fth th pos None dg = (None, self') \<longrightarrow>
      (\<exists>dat fl m. shown_data self dg = Some dat
         \<and> hidden_features ext self fth dg = Inr fl
         \<and> mask self' = Some m
         \<and> obj_shape m = obj_shape (contrib_sorted dat)
         \<and> (\<forall>k i j. in_table m k i j \<longrightarrow>
               cell_at m k i j
                 = passes fl th pos (cell_at (var_dict dat) k i j)
                     (cell_at (contrib_sorted dat) k i j))))
   \<and> (shown_data self dg = Some dat0 \<longrightarrow>
      (\<exists>s m. filter_xpl ext self None None None None dg = (None, s)
         \<and> mask s = Some m
         \<and> obj_shape m = obj_shape (contrib_sorted dat0)
         \<and> (\<forall>k i j. in_table m k i j \<longrightarrow> cell_at m k i j)))"
proof (rule conjI; rule impI)
  assume run: "filter_xpl ext self fth th pos None dg = (None, self')"
  show "\<exists>dat fl m. shown_data self dg = Some dat
         \<and> hidden_features ext self fth dg = Inr fl
         \<and> mask self' = Some m
         \<and> obj_shape m = obj_shape (contrib_sorted dat)
         \<and> (\<forall>k i j. in_table m k i j \<longrightarrow>
               cell_at m k i j
                 = passes fl th pos (cell_at (var_dict dat) k i j)
                     (cell_at (contrib_sorted dat) k i j))"
  proof (cases rule: filter_cases[of self dg ext fth th pos])
    case no_data
    with run show ?thesis by simp
  next
    case (criteria_error dat e)
    with run show ?thesis by simp
  next
    case (combine_error dat masks e)
    with run show ?thesis by simp
  next
    case (combined dat masks m)
    obtain fl where fl: "hidden_features ext self fth dg = Inr fl"
      and sh: "obj_shape m = obj_shape (contrib_sorted dat)"
      and cells: "\<And>k i j. in_table m k i j \<Longrightarrow>
         cell_at m k i j
           = passes fl th pos (cell_at (var_dict dat) k i j) (cell_at (contrib_sorted dat) k i j)"
      using combined_shape_cells[OF combined(2,3)] by blast
    from finish_filter_no_cutoff[OF sh, of None self fth th pos] combined(4)[of None] run
    have "mask self' = Some m" by auto
    with combined(1) fl sh cells show ?thesis by blast
  qed
next
  assume d: "shown_data self dg = Some dat0"
  show "\<exists>s m. filter_xpl ext self None None None None dg = (None, s)
         \<and> mask s = Some m
         \<and> obj_shape m = obj_shape (contrib_sorted dat0)
         \<and> (\<forall>k i j. in_table m k i j \<longrightarrow> cell_at m k i j)"
  proof -
    define m where "m = st_init_mask (contrib_sorted dat0) True"
    have sh: "obj_shape m = obj_shape (contrib_sorted dat0)"
      by (simp add: m_def obj_shape_init)
    from d have "(if dg \<noteq> Some False \<and> features_groups self \<noteq> None then data_groups self
                 else Some (data self)) = Some dat0"
      by (simp add: shown_data_def)
    then have "filter_xpl ext self None None None None dg
                 = finish_filter self dat0 m None None None None"
      unfolding filter_xpl_def Let_def
      by (simp add: criteria_masks_normal st_combine_masks_one m_def)
    with finish_filter_no_cutoff[OF sh, of None self None None None]
    obtain s where s: "filter_xpl ext self None None None None dg = (None, s)" "mask s = Some m"
      by auto
    have "cell_at m k i j" if "in_table m k i j" for k i j
    proof -
      from that in_table_shape[OF sh] have "in_table (contrib_sorted dat0) k i j" by simp
      then show ?thesis unfolding m_def by (simp add: cell_init)
    qed
    with s sh show ?thesis by blast
  qed
qed




text \<open>The definitions that a run of \<^verbatim>\<open>filter\<close> on the example unfolds.\<close>

lemmas run_defs =
  filter_xpl_def criteria_masks_def finish_filter_def xpl0_def data0_def ext0_def
  check_features_name_def call_def st_init_mask_def st_hide_contributions_def
  st_sign_contributions_def sign_contributions_def
  st_combine_masks_def init_mask_def hide_contributions_def applymap_def frame0_def
  cap_contributions_def shape_def and_frame_def cutoff_contributions_def cutoff_frame_def
  compute_masked_contributions_def


lemma filter_run_combined:
  "fst (filter_xpl ext0 xpl0 (Some [FId 0]) (Some (1/10)) None None None) = None
   \<and> mask (snd (filter_xpl ext0 xpl0 (Some [FId 0]) (Some (1/10)) None None None))
       = Some (Single (frame0 [[False, True, False], [True, False, True]]))"
  by (simp add: run_defs)




lemma shown_data0: "shown_data xpl0 None = Some data0"
  by (simp add: shown_data_def xpl0_def)

lemma hidden_features0: "hidden_features ext0 xpl0 (Some [FId 0]) None = Inr [0]"
  by (simp add: hidden_features_def check_features_name_def call_def ext0_def xpl0_def)

theorem filter_criteria_conjunction_witness:
  "shown_data xpl0 None = Some data0
   \<and> hidden_features ext0 xpl0 (Some [FId 0]) None = Inr [0]
   \<and> (\<exists>m. mask (snd (filter_xpl ext0 xpl0 (Some [FId 0]) (Some (1/10)) None None None)) = Some m
         \<and> obj_shape m = obj_shape (contrib_sorted data0)
         \<and> (\<forall>k i j. in_table m k i j \<longrightarrow>
               cell_at m k i j
                 = passes [0] (Some (1/10)) None (cell_at (var_dict data0) k i j)
                     (cell_at (contrib_sorted data0) k i j)))
   \<and> (\<exists>s m. filter_xpl ext0 xpl0 None None None None None = (None, s)
         \<and> mask s = Some m
         \<and> obj_shape m = obj_shape (contrib_sorted data0)
         \<and> (\<forall>k i j. in_table m k i j \<longrightarrow> cell_at m k i j))"
proof -
  have run: "filter_xpl ext0 xpl0 (Some [FId 0]) (Some (1/10)) None None None
               = (None, snd (filter_xpl ext0 xpl0 (Some [FId 0]) (Some (1/10)) None None None))"
    using filter_run_combined by (simp add: prod_eq_iff)
  from filter_criteria_conjunction
         [of ext0 xpl0 "Some [FId 0]" "Some (1/10)" None None
             "snd (filter_xpl ext0 xpl0 (Some [FId 0]) (Some (1/10)) None None None)" data0]
       run shown_data0 hidden_features0
  show ?thesis by auto
qed


subsection \<open>\<^verbatim>\<open>to_pandas\<close>\<close>

lemma summary_and_join_keeps:
  "mask (snd (summary_and_join ext self dat yp proba g)) = mask self
   \<and> mask_params (snd (summary_and_join ext self dat yp proba g)) = mask_params self
   \<and> masked_contributions (snd (summary_and_join ext self dat yp proba g))
       = masked_contributions self"
  unfolding summary_and_join_def Let_def
  by (simp split: sum.split option.split prod.split)

lemma cached_mask_usable_True:
  assumes "mask_params self = Some mp" "mask self = Some m" "same_width (contrib_sorted dat) m"
  shows "cached_mask_usable self dat None None None None = Inr True"
  using assms
  by (cases "(contrib_sorted dat, m)" rule: same_width.cases)
     (simp_all add: cached_mask_usable_def)

lemma cached_mask_usable_supplied:
  "fth \<noteq> None \<or> th \<noteq> None \<or> pos \<noteq> None \<or> mc \<noteq> None \<Longrightarrow>
     cached_mask_usable self dat fth th pos mc = Inr False"
  by (auto simp: cached_mask_usable_def)

lemma finish_filter_params:
  "finish_filter self dat m fth th pos mc = (None, s) \<Longrightarrow>
     mask_params s = Some \<lparr>mp_features_to_hide = fth, mp_threshold = th,
                           mp_positive = pos, mp_max_contrib = mc\<rparr>"
  unfolding finish_filter_def Let_def
  by (auto split: sum.splits option.splits if_splits prod.splits)

lemma filter_xpl_params:
  assumes "filter_xpl ext self fth th pos mc dg = (None, s)"
  shows "mask_params s = Some \<lparr>mp_features_to_hide = fth, mp_threshold = th,
                                mp_positive = pos, mp_max_contrib = mc\<rparr>"
proof (cases rule: filter_cases[of self dg ext fth th pos])
  case no_data
  with assms show ?thesis by simp
next
  case (criteria_error dat e)
  with assms show ?thesis by simp
next
  case (combine_error dat masks e)
  with assms show ?thesis by simp
next
  case (combined dat masks m)
  with assms have "finish_filter self dat m fth th pos mc = (None, s)" by simp
  then show ?thesis by (rule finish_filter_params)
qed

lemma to_pandas_cached:
  assumes "y_pred self = Some yp" "shown_data self ug = Some dat"
    and "cached_mask_usable self dat fth th pos mc = Inr True"
  shows "to_pandas ext self fth th pos mc proba ug
           = summary_and_join ext self dat yp proba
               (ug \<noteq> Some False \<and> features_groups self \<noteq> None)"
proof -
  from assms(2) have "(if ug \<noteq> Some False \<and> features_groups self \<noteq> None
      then data_groups self else Some (data self)) = Some dat"
    by (simp add: shown_data_def)
  with assms(1,3) show ?thesis
    unfolding to_pandas_def Let_def by simp
qed

lemma to_pandas_filtered:
  assumes "y_pred self = Some yp" "shown_data self ug = Some dat"
    and "cached_mask_usable self dat fth th pos mc = Inr False"
  shows "to_pandas ext self fth th pos mc proba ug
           = (case filter_xpl ext self fth th pos mc
                     (Some (ug \<noteq> Some False \<and> features_groups self \<noteq> None)) of
                (Some e, s) \<Rightarrow> (Inl e, s)
              | (None, s) \<Rightarrow>
                  summary_and_join ext s dat yp proba
                    (ug \<noteq> Some False \<and> features_groups self \<noteq> None))"
proof -
  from assms(2) have "(if ug \<noteq> Some False \<and> features_groups self \<noteq> None
      then data_groups self else Some (data self)) = Some dat"
    by (simp add: shown_data_def)
  with assms(1,3) show ?thesis
    unfolding to_pandas_def Let_def by simp
qed

text \<open>
  Claim C9. On an explainer with predictions and data, a call of \<^verbatim>\<open>to_pandas\<close> with
  all four filter parameters \<^verbatim>\<open>None\<close>, when \<^verbatim>\<open>mask_params\<close> exists and the mask
  stored has the width of \<^verbatim>\<open>contrib_sorted\<close>, leaves the mask, its parameters and the
  masked contributions as they were. A call with any of the four parameters
  supplied runs \<^verbatim>\<open>filter\<close> with the parameters of the call: it raises what
  \<^verbatim>\<open>filter\<close> raises, and otherwise the mask and the masked contributions are
  those of that run and \<^verbatim>\<open>mask_params\<close> holds the parameters of the call, whatever
  was stored before.
\<close>

theorem to_pandas_mask_cache:
  assumes "y_pred self = Some yp" "shown_data self ug = Some dat"
  shows "(mask_params self = Some mp \<and> mask self = Some m \<and> same_width (contrib_sorted dat) m \<longrightarrow>
            mask (snd (to_pandas ext self None None None None proba ug)) = mask self
            \<and> mask_params (snd (to_pandas ext self None None None None proba ug)) = mask_params self
            \<and> masked_contributions (snd (to_pandas ext self None None None None proba ug))
                = masked_contributions self)
       \<and> (fth \<noteq> None \<or> th \<noteq> None \<or> pos \<noteq> None \<or> mc \<noteq> None \<longrightarrow>
            (case filter_xpl ext self fth th pos mc
                    (Some (ug \<noteq> Some False \<and> features_groups self \<noteq> None)) of
               (Some e, s) \<Rightarrow> to_pandas ext self fth th pos mc proba ug = (Inl e, s)
             | (None, s) \<Rightarrow>
                 mask (snd (to_pandas ext self fth th pos mc proba ug)) = mask s
                 \<and> masked_contributions (snd (to_pandas ext self fth th pos mc proba ug))
                     = masked_contributions s
                 \<and> mask_params (snd (to_pandas ext self fth th pos mc proba ug))
                     = Some \<lparr>mp_features_to_hide = fth, mp_threshold = th,
                             mp_positive = pos, mp_max_contrib = mc\<rparr>))"
proof (rule conjI; rule impI)
  assume "mask_params self = Some mp \<and> mask self = Some m \<and> same_width (contrib_sorted dat) m"
  then have "cached_mask_usable self dat None None None None = Inr True"
    by (simp add: cached_mask_usable_True)
  from to_pandas_cached[OF assms this]
  show "mask (snd (to_pandas ext self None None None None proba ug)) = mask self
            \<and> mask_params (snd (to_pandas ext self None None None None proba ug)) = mask_params self
            \<and> masked_contributions (snd (to_pandas ext self None None None None proba ug))
                = masked_contributions self"
    by (simp add: summary_and_join_keeps)
next
  let ?g = "ug \<noteq> Some False \<and> features_groups self \<noteq> None"
  assume "fth \<noteq> None \<or> th \<noteq> None \<or> pos \<noteq> None \<or> mc \<noteq> None"
  then have c: "cached_mask_usable self dat fth th pos mc = Inr False"
    by (rule cached_mask_usable_supplied)
  note tp = to_pandas_filtered[OF assms c, of ext proba]
  obtain e s where f: "filter_xpl ext self fth th pos mc (Some ?g) = (e, s)"
    by (cases "filter_xpl ext self fth th pos mc (Some ?g)")
  show "case filter_xpl ext self fth th pos mc (Some ?g) of
               (Some e, s) \<Rightarrow> to_pandas ext self fth th pos mc proba ug = (Inl e, s)
             | (None, s) \<Rightarrow>
                 mask (snd (to_pandas ext self fth th pos mc proba ug)) = mask s
                 \<and> masked_contributions (snd (to_pandas ext self fth th pos mc proba ug))
                     = masked_contributions s
                 \<and> mask_params (snd (to_pandas ext self fth th pos mc proba ug))
                     = Some \<lparr>mp_features_to_hide = fth, mp_threshold = th,
                             mp_positive = pos, mp_max_contrib = mc\<rparr>"
  proof (cases e)
    case None
    with f filter_xpl_params[of ext self fth th pos mc "Some ?g" s] tp
    show ?thesis by (simp add: summary_and_join_keeps)
  next
    case (Some err)
    with f tp show ?thesis by simp
  qed
qed







text \<open>The definitions that a run of \<^verbatim>\<open>to_pandas\<close> on the example unfolds.\<close>

lemmas to_pandas_defs =
  to_pandas_def cached_mask_usable_def summary_and_join_def summarize_def summarize_row_def
  feature_name_def concat_axis1_def keep_right_contributions_def xpl_filtered_def
  shown_data_def

theorem to_pandas_mask_cache_witness:
  "y_pred xpl_filtered = Some \<lparr>df_index = [0, 1], df_columns = [''pred''], df_values = [[7], [9]]\<rparr>
   \<and> shown_data xpl_filtered None = Some data0
   \<and> mask (snd (to_pandas ext0 xpl_filtered None None None None False None))
       = Some (Single (frame0 [[False, True, False], [True, False, True]]))
   \<and> mask_params (snd (to_pandas ext0 xpl_filtered None None None None False None))
       = mask_params xpl_filtered
   \<and> mask (snd (to_pandas ext0 xpl_filtered None None None (Some 1) False None))
       = Some (Single (frame0 [[True, False, False], [True, False, False]]))
   \<and> mask_params (snd (to_pandas ext0 xpl_filtered None None None (Some 1) False None))
       = Some \<lparr>mp_features_to_hide = None, mp_threshold = None,
               mp_positive = None, mp_max_contrib = Some 1\<rparr>"
  using to_pandas_mask_cache
    [where self = xpl_filtered and ug = None and dat = data0 and ext = ext0 and proba = False
       and yp = "\<lparr>df_index = [0, 1], df_columns = [''pred''], df_values = [[7], [9]]\<rparr>"
       and mp = "\<lparr>mp_features_to_hide = Some [FId 0], mp_threshold = Some (1/10),
                  mp_positive = None, mp_max_contrib = None\<rparr>"
       and m = "Single (frame0 [[False, True, False], [True, False, True]])"
       and fth = None and th = None and pos = None and mc = "Some 1"]
  by (simp add: to_pandas_defs run_defs)




subsection \<open>\<^verbatim>\<open>compile\<close>\<close>

lemma compile_inputs_both:
  assumes "expl \<noteq> None" "contribs \<noteq> None"
  shows "\<exists>e s. compile_inputs ext self x mdl expl contribs preproc = (Some e, s)
     \<and> s\<lparr>x_init := x_init self, x_pred := x_pred self, preprocessing := preprocessing self,
          model := model self, u_case := u_case self, u_classes := u_classes self,
          inv_label_dict := inv_label_dict self\<rparr> = self
     \<and> ((\<exists>n. e = ExternalError n) \<or> e = BothGivenError)
     \<and> (\<forall>xp c cs. call (ext_inverse_transform ext x preproc) = Inr xp
            \<and> call (ext_check_model ext mdl) = Inr (c, cs)
            \<and> (c = ''regression'' \<or> call (ext_check_label_dict ext (label_dict self) c cs) = Inr ())
          \<longrightarrow> e = BothGivenError)"
  using assms unfolding compile_inputs_def Let_def
  by (auto split: sum.splits option.splits prod.splits dest!: call_cases)

text \<open>
  Claim C10. A call of \<^verbatim>\<open>compile\<close> with both an explainer and contributions raises
  and compiles nothing: apart from the attributes that lines 215 to 222 have
  assigned by then (\<^verbatim>\<open>x_init\<close>, \<^verbatim>\<open>x_pred\<close>, \<^verbatim>\<open>preprocessing\<close>, \<^verbatim>\<open>model\<close>, \<^verbatim>\<open>_case\<close>,
  \<^verbatim>\<open>_classes\<close>, \<^verbatim>\<open>inv_label_dict\<close>) the explainer is as it was. The exception is
  that of a collaborator called on these lines, if one raises, and otherwise the
  \<^verbatim>\<open>ValueError\<close> of line 224.
\<close>

theorem compile_rejects_explainer_and_contributions:
  assumes "expl \<noteq> None" "contribs \<noteq> None"
  shows "\<exists>e s. compile ext self x mdl expl contribs ypred preproc postproc title groups = (Some e, s)
     \<and> s\<lparr>x_init := x_init self, x_pred := x_pred self, preprocessing := preprocessing self,
          model := model self, u_case := u_case self, u_classes := u_classes self,
          inv_label_dict := inv_label_dict self\<rparr> = self
     \<and> ((\<exists>n. e = ExternalError n) \<or> e = BothGivenError)
     \<and> (\<forall>xp c cs. call (ext_inverse_transform ext x preproc) = Inr xp
            \<and> call (ext_check_model ext mdl) = Inr (c, cs)
            \<and> (c = ''regression'' \<or> call (ext_check_label_dict ext (label_dict self) c cs) = Inr ())
          \<longrightarrow> e = BothGivenError)"
proof -
  from compile_inputs_both[OF assms, of ext self x mdl preproc] obtain e s where
    ci: "compile_inputs ext self x mdl expl contribs preproc = (Some e, s)"
    and rest: "s\<lparr>x_init := x_init self, x_pred := x_pred self, preprocessing := preprocessing self,
          model := model self, u_case := u_case self, u_classes := u_classes self,
          inv_label_dict := inv_label_dict self\<rparr> = self"
     "(\<exists>n. e = ExternalError n) \<or> e = BothGivenError"
     "\<forall>xp c cs. call (ext_inverse_transform ext x preproc) = Inr xp
            \<and> call (ext_check_model ext mdl) = Inr (c, cs)
            \<and> (c = ''regression'' \<or> call (ext_check_label_dict ext (label_dict self) c cs) = Inr ())
          \<longrightarrow> e = BothGivenError"
    by blast
  from ci have "compile ext self x mdl expl contribs ypred preproc postproc title groups = (Some e, s)"
    by (simp add: compile_def)
  with rest show ?thesis by blast
qed

lemma fold_update_self:
  "map_of (fold (\<lambda>f fd. AList.update f f fd) fs fd0) c
     = (if c \<in> set fs then Some c else map_of fd0 c)"
  by (induction fs arbitrary: fd0) (auto simp: update_conv')

lemma check_features_dict_lookup:
  "map_of (features_dict (check_features_dict self)) c
     = (if c \<in> snd ` set (columns_dict self) \<and> map_of (features_dict self) c = None
        then Some c else map_of (features_dict self) c)"
  by (auto simp: check_features_dict_def fold_update_self map_of_eq_None_iff)

lemma update_groups_keeps:
  "map_of (features_dict self) c = Some v \<Longrightarrow>
     map_of (features_dict (update_features_dict_with_groups gs self)) c = Some v"
proof (induction gs arbitrary: self)
  case Nil
  then show ?case by simp
next
  case (Cons g gs)
  show ?case
  proof (cases "g \<in> set (map fst (features_dict self))")
    case True
    with Cons show ?thesis by (simp add: Let_def)
  next
    case False
    with Cons.prems have "g \<noteq> c" by (auto simp: map_of_eq_None_iff[symmetric])
    with Cons False show ?thesis by (simp add: Let_def update_conv')
  qed
qed

lemma update_groups_columns:
  "columns_dict (update_features_dict_with_groups gs self) = columns_dict self
   \<and> x_pred (update_features_dict_with_groups gs self) = x_pred self"
  by (induction gs arbitrary: self) (simp_all add: Let_def)

lemma compile_inputs_ok:
  assumes "compile_inputs ext self x mdl expl contribs preproc = (None, s)"
  shows "call (ext_inverse_transform ext x preproc) = Inr (x_pred s)
         \<and> features_dict s = features_dict self"
  using assms unfolding compile_inputs_def Let_def
  by (auto split: sum.splits option.splits prod.splits if_splits)

lemma compile_contributions_ok:
  assumes "compile_contributions ext self mdl expl contribs ypred preproc = (None, s)"
  shows "x_pred s = x_pred self \<and> features_dict s = features_dict self"
  using assms unfolding compile_contributions_def Let_def
  by (auto split: sum.splits option.splits prod.splits if_splits)

lemma map_snd_enumerate: "map snd (enumerate n xs) = xs"
  by (induction xs arbitrary: n) simp_all

lemma check_features_dict_fields:
  "columns_dict (check_features_dict self) = columns_dict self
   \<and> x_pred (check_features_dict self) = x_pred self"
  by (simp add: check_features_dict_def)

lemma compile_names_lookup:
  "columns_dict (compile_names self) = enumerate 0 (df_columns (x_pred self))
   \<and> x_pred (compile_names self) = x_pred self
   \<and> (c \<in> set (df_columns (x_pred self)) \<longrightarrow>
        map_of (features_dict (compile_names self)) c
          = (case map_of (features_dict self) c of None \<Rightarrow> Some c | Some name \<Rightarrow> Some name))"
proof -
  let ?s1 = "self\<lparr>columns_dict := enumerate 0 (df_columns (x_pred self)),
                   inv_columns_dict := inv_dict (enumerate 0 (df_columns (x_pred self)))\<rparr>"
  have cn: "compile_names self
              = (check_features_dict ?s1)
                  \<lparr>inv_features_dict := inv_dict (features_dict (check_features_dict ?s1))\<rparr>"
    by (simp add: compile_names_def Let_def)
  have "snd ` set (enumerate 0 (df_columns (x_pred self))) = set (df_columns (x_pred self))"
    using map_snd_enumerate[of 0 "df_columns (x_pred self)"] by (metis set_map)
  then have "map_of (features_dict (check_features_dict ?s1)) c
          = (case map_of (features_dict self) c of None \<Rightarrow> Some c | Some name \<Rightarrow> Some name)"
    if "c \<in> set (df_columns (x_pred self))"
    using that by (simp add: check_features_dict_lookup split: option.splits)
  then show ?thesis
    unfolding cn using check_features_dict_fields[of ?s1] by simp
qed

lemma compile_postprocessing_ok:
  assumes "compile_postprocessing ext self postproc = (None, s)"
  shows "features_dict s = features_dict self \<and> columns_dict s = columns_dict self
         \<and> (postproc = None \<or> postproc = Some [] \<longrightarrow> x_pred s = x_pred self)"
  using assms unfolding compile_postprocessing_def Let_def
  by (auto simp: modify_postprocessing_def split: sum.splits option.splits prod.splits if_splits)

lemma compile_features_groups_ok:
  assumes "compile_features_groups ext self g = (None, s)"
  shows "columns_dict s = columns_dict self \<and> x_pred s = x_pred self
         \<and> (map_of (features_dict self) c = Some v \<longrightarrow> map_of (features_dict s) c = Some v)"
  using assms unfolding compile_features_groups_def Let_def
  by (auto simp: update_groups_columns update_groups_keeps
           split: sum.splits option.splits prod.splits if_splits)

lemma compile_data_ok:
  assumes "compile_data ext self title groups = (None, s)"
  shows "columns_dict s = columns_dict self \<and> x_pred s = x_pred self
         \<and> (map_of (features_dict self) c = Some v \<longrightarrow> map_of (features_dict s) c = Some v)"
proof -
  from assms obtain ranked where
    r: "call (ext_rank_contributions ext (contributions self) (x_pred self)) = Inr ranked"
    unfolding compile_data_def by (auto split: sum.splits)
  define s0 where "s0 = self\<lparr>data := assign_contributions ranked, features_imp := None\<rparr>"
  define s1 where "s1 = (case title of None \<Rightarrow> s0\<lparr>features_desc := check_features_desc s0\<rparr>
                         | Some t \<Rightarrow> s0\<lparr>features_desc := check_features_desc s0, title_story := t\<rparr>)
                        \<lparr>features_groups := groups\<rparr>"
  have s1: "columns_dict s1 = columns_dict self" "x_pred s1 = x_pred self"
        "features_dict s1 = features_dict self"
    by (simp_all add: s1_def s0_def split: option.splits)
  from assms r have run: "(case (case groups of None \<Rightarrow> (None, s1)
              | Some g \<Rightarrow> if g = [] then (None, s1) else compile_features_groups ext s1 g) of
        (Some e, s') \<Rightarrow> (Some e, s')
      | (None, s') \<Rightarrow>
          (None, s'\<lparr>local_neighbors := None, features_stability := None,
                        features_compacity := None\<rparr>)) = (None, s)"
    unfolding compile_data_def Let_def s1_def s0_def
    by (simp split: option.splits)
  then obtain s2 where
    s2: "(case groups of None \<Rightarrow> (None, s1)
              | Some g \<Rightarrow> if g = [] then (None, s1) else compile_features_groups ext s1 g)
             = (None, s2)"
    and s: "s = s2\<lparr>local_neighbors := None, features_stability := None,
                    features_compacity := None\<rparr>"
    by (auto split: prod.splits option.splits)
  from s2 have "columns_dict s2 = columns_dict s1 \<and> x_pred s2 = x_pred s1
         \<and> (map_of (features_dict s1) c = Some v \<longrightarrow> map_of (features_dict s2) c = Some v)"
    using compile_features_groups_ok[of ext s1 _ s2 c v]
    by (auto split: option.splits if_splits)
  with s1 s show ?thesis by simp
qed

text \<open>
  Claim C8. When \<^verbatim>\<open>compile\<close> returns, every column name of the prediction set (as
  \<^verbatim>\<open>inverse_transform\<close> returned it, enumerated in \<^verbatim>\<open>columns_dict\<close>) is a key of
  \<^verbatim>\<open>features_dict\<close>: it maps to itself when the dictionary supplied lacked it, and
  to the name supplied otherwise. Without post-processing these are the columns
  of \<^verbatim>\<open>x_pred\<close> as \<^verbatim>\<open>compile\<close> leaves it.
\<close>

theorem compile_features_dict_fallback:
  assumes "compile ext self x mdl expl contribs ypred preproc postproc title groups = (None, s)"
  shows "\<exists>xp. call (ext_inverse_transform ext x preproc) = Inr xp
          \<and> columns_dict s = enumerate 0 (df_columns xp)
          \<and> (\<forall>c \<in> set (df_columns xp).
                map_of (features_dict s) c
                  = (case map_of (features_dict self) c of
                       None \<Rightarrow> Some c | Some name \<Rightarrow> Some name))
          \<and> (postproc = None \<or> postproc = Some [] \<longrightarrow> df_columns (x_pred s) = df_columns xp)"
proof -
  from assms obtain s1 s2 s3 where
    a: "compile_inputs ext self x mdl expl contribs preproc = (None, s1)"
    and b: "compile_contributions ext s1 mdl expl contribs ypred preproc = (None, s2)"
    and c: "compile_postprocessing ext (compile_names s2) postproc = (None, s3)"
    and d: "compile_data ext s3 title groups = (None, s)"
    unfolding compile_def
    by (auto split: prod.splits option.splits)
  let ?xp = "x_pred s1"
  note a' = compile_inputs_ok[OF a] and b' = compile_contributions_ok[OF b]
    and c' = compile_postprocessing_ok[OF c]
  from a' have inv: "call (ext_inverse_transform ext x preproc) = Inr ?xp" by simp
  from b' have xp2: "x_pred s2 = ?xp" by simp
  have cd: "columns_dict s = enumerate 0 (df_columns ?xp)"
    using compile_data_ok[OF d] c' compile_names_lookup[of s2] xp2 by simp
  have look: "map_of (features_dict s) col
                  = (case map_of (features_dict self) col of
                       None \<Rightarrow> Some col | Some name \<Rightarrow> Some name)"
    if "col \<in> set (df_columns ?xp)" for col
  proof -
    from that compile_names_lookup[of s2 col] xp2 a' b' c'
    have "map_of (features_dict s3) col
            = (case map_of (features_dict self) col of None \<Rightarrow> Some col | Some name \<Rightarrow> Some name)"
      by simp
    then obtain v where v: "map_of (features_dict s3) col = Some v"
      "(case map_of (features_dict self) col of None \<Rightarrow> Some col | Some name \<Rightarrow> Some name) = Some v"
      by (cases "map_of (features_dict self) col") auto
    from compile_data_ok[OF d, of col v] v show ?thesis by simp
  qed
  have pp: "df_columns (x_pred s) = df_columns ?xp" if "postproc = None \<or> postproc = Some []"
    using that compile_data_ok[OF d] c' compile_names_lookup[of s2] xp2 by simp
  from inv cd look pp show ?thesis by blast
qed

text \<open>The definitions that a run of \<^verbatim>\<open>compile\<close> on the example unfolds.\<close>

lemmas compile_defs =
  compile_def compile_inputs_def compile_contributions_def compile_names_def
  compile_postprocessing_def compile_data_def check_features_dict_def
  modify_postprocessing_def check_postprocessing_modif_strings_def check_features_desc_def
  assign_contributions_def choose_state_def inv_dict_def call_def ext0_def xpl0_def
  xpl_new_def x0_def frame0_def applymap_def shape_def

lemma compile_run:
  "fst (compile ext0 xpl_new x0 (Opaque 0) None None None None None None None) = None"
  by (simp add: compile_defs)

theorem compile_features_dict_fallback_witness:
  "call (ext_inverse_transform ext0 x0 None) = Inr x0
   \<and> map_of (features_dict xpl_new) ''b'' = None
   \<and> map_of (features_dict
         (snd (compile ext0 xpl_new x0 (Opaque 0) None None None None None None None))) ''a''
       = Some ''Age''
   \<and> map_of (features_dict
         (snd (compile ext0 xpl_new x0 (Opaque 0) None None None None None None None))) ''b''
       = Some ''b''
   \<and> map_of (features_dict
         (snd (compile ext0 xpl_new x0 (Opaque 0) None None None None None None None))) ''c''
       = Some ''c''"
proof -
  have run: "compile ext0 xpl_new x0 (Opaque 0) None None None None None None None
      = (None, snd (compile ext0 xpl_new x0 (Opaque 0) None None None None None None None))"
    using compile_run by (simp add: prod_eq_iff)
  have inv: "call (ext_inverse_transform ext0 x0 None) = Inr x0"
    by (simp add: call_def ext0_def)
  from compile_features_dict_fallback[OF run] inv
  show ?thesis by (simp add: xpl_new_def xpl0_def x0_def frame0_def)
qed

theorem compile_rejects_explainer_and_contributions_witness:
  "Some (Opaque 1) \<noteq> None
   \<and> Some (Single (frame0 [[1/2, 1/20, -3/10], [1/5, -2/5, 1/10 :: real]])) \<noteq> None
   \<and> fst (compile ext0 xpl0 x0 (Opaque 0) (Some (Opaque 1))
            (Some (Single (frame0 [[1/2, 1/20, -3/10], [1/5, -2/5, 1/10]])))
            None None None None None)
       = Some BothGivenError
   \<and> data (snd (compile ext0 xpl0 x0 (Opaque 0) (Some (Opaque 1))
            (Some (Single (frame0 [[1/2, 1/20, -3/10], [1/5, -2/5, 1/10]])))
            None None None None None)) = data0"
  using compile_rejects_explainer_and_contributions
    [where expl = "Some (Opaque 1)"
       and contribs = "Some (Single (frame0 [[1/2, 1/20, -3/10], [1/5, -2/5, 1/10]]))"
       and ext = ext0 and self = xpl0 and x = x0 and mdl = "Opaque 0" and ypred = None
       and preproc = None and postproc = None and title = None and groups = None]
  by (simp add: compile_defs)

end
